theory Spec2Isabelle
  imports Complex_Main "HOL-Library.Monad_Syntax"
begin

section \<open>Numbers and the three.js value types\<close>

text \<open>
  The program is TypeScript; every \<open>number\<close> is modelled as a \<open>real\<close>, so arithmetic
  is exact (IEEE rounding, infinities and NaN are outside this model).  Where rounding
  decides a property, the update of the craft is given a second time, in IEEE doubles
  (section \<open>The update in IEEE doubles\<close>).

  \<open>THREE.Vector3\<close>, \<open>THREE.Euler\<close> and \<open>THREE.Quaternion\<close> come from the three.js
  library.  The methods the controller calls are written out below following the
  library: \<open>set\<close>, \<open>add\<close>, \<open>multiplyScalar\<close>, \<open>divideScalar\<close> (multiplication by the
  reciprocal), \<open>length\<close>, \<open>normalize\<close> (division by \<open>length() || 1\<close>) and \<open>applyEuler\<close>
  (conversion of the Euler angles, order XYZ, to a quaternion, then \<open>applyQuaternion\<close>).
\<close>

record Vector3 =
  vx :: real
  vy :: real
  vz :: real

record Euler =
  ex :: real
  ey :: real
  ez :: real

record Quaternion =
  qx :: real
  qy :: real
  qz :: real
  qw :: real

definition v3 :: "real \<Rightarrow> real \<Rightarrow> real \<Rightarrow> Vector3" where
  "v3 a b c = \<lparr>vx = a, vy = b, vz = c\<rparr>"

definition euler :: "real \<Rightarrow> real \<Rightarrow> real \<Rightarrow> Euler" where
  "euler a b c = \<lparr>ex = a, ey = b, ez = c\<rparr>"

definition v3_add :: "Vector3 \<Rightarrow> Vector3 \<Rightarrow> Vector3" where
  "v3_add a b = \<lparr>vx = vx a + vx b, vy = vy a + vy b, vz = vz a + vz b\<rparr>"

definition v3_multiplyScalar :: "Vector3 \<Rightarrow> real \<Rightarrow> Vector3" where
  "v3_multiplyScalar a k = \<lparr>vx = vx a * k, vy = vy a * k, vz = vz a * k\<rparr>"

definition v3_divideScalar :: "Vector3 \<Rightarrow> real \<Rightarrow> Vector3" where
  "v3_divideScalar a k = v3_multiplyScalar a (1 / k)"

definition v3_length :: "Vector3 \<Rightarrow> real" where
  "v3_length a = sqrt (vx a * vx a + vy a * vy a + vz a * vz a)"

definition v3_normalize :: "Vector3 \<Rightarrow> Vector3" where
  "v3_normalize a = v3_divideScalar a (if v3_length a = 0 then 1 else v3_length a)"

definition setFromEuler :: "Euler \<Rightarrow> Quaternion" where
  "setFromEuler e =
     (let c1 = cos (ex e / 2); c2 = cos (ey e / 2); c3 = cos (ez e / 2);
          s1 = sin (ex e / 2); s2 = sin (ey e / 2); s3 = sin (ez e / 2)
      in \<lparr>qx = s1 * c2 * c3 + c1 * s2 * s3,
          qy = c1 * s2 * c3 - s1 * c2 * s3,
          qz = c1 * c2 * s3 + s1 * s2 * c3,
          qw = c1 * c2 * c3 - s1 * s2 * s3\<rparr>)"

definition applyQuaternion :: "Vector3 \<Rightarrow> Quaternion \<Rightarrow> Vector3" where
  "applyQuaternion v q =
     (let ix = qw q * vx v + qy q * vz v - qz q * vy v;
          iy = qw q * vy v + qz q * vx v - qx q * vz v;
          iz = qw q * vz v + qx q * vy v - qy q * vx v;
          iw = - qx q * vx v - qy q * vy v - qz q * vz v
      in \<lparr>vx = ix * qw q + iw * (- qx q) + iy * (- qz q) - iz * (- qy q),
          vy = iy * qw q + iw * (- qy q) + iz * (- qx q) - ix * (- qz q),
          vz = iz * qw q + iw * (- qz q) + ix * (- qy q) - iy * (- qx q)\<rparr>)"

definition applyEuler :: "Vector3 \<Rightarrow> Euler \<Rightarrow> Vector3" where
  "applyEuler v e = applyQuaternion v (setFromEuler e)"

section \<open>InputState\<close>

record Touch =
  active :: bool
  tx :: real
  ty :: real
  deltaX :: real
  deltaY :: real

text \<open>
  The interface \<open>InputState\<close>.  Its \<open>touch\<close> field holds an object; the type of that
  field is a parameter, so that the same record serves with the object's value in it
  (\<open>InputState\<close>, for the arithmetic) and with a reference to the object in it
  (the object model further down, where sharing matters).
\<close>

record 't InputFields =
  forward :: bool
  backward :: bool
  left :: bool
  right :: bool
  up :: bool
  down :: bool
  pitch :: real
  yaw :: real
  roll :: real
  touch :: 't

type_synonym InputState = "Touch InputFields"

section \<open>CraftController\<close>

text \<open>
  The interface \<open>CraftState\<close>.  Five fields hold three.js objects; as for
  \<open>InputState\<close>, the types of those fields are parameters: \<open>CraftState\<close> has the
  objects' values in them, the object model further down has references.
\<close>

record ('v, 'e) CraftFields =
  position :: 'v
  velocity :: 'v
  acceleration :: 'v
  rotation :: 'e
  angularVelocity :: 'v
  mass :: real
  gravityReduction :: real
  speed :: real
  altitude :: real
  gForce :: real

type_synonym CraftState = "(Vector3, Euler) CraftFields"

definition baseThrust :: real where
  "baseThrust = 500"

definition maxSpeed :: real where
  "maxSpeed = 2000"

definition gravityStrength :: real where
  "gravityStrength = 981 / 100"

text \<open>The state built by the constructor of \<open>CraftController\<close>.\<close>

definition initialCraftState :: CraftState where
  "initialCraftState =
     \<lparr>position = v3 0 1000 0,
      velocity = v3 0 0 0,
      acceleration = v3 0 0 0,
      rotation = euler 0 0 0,
      angularVelocity = v3 0 0 0,
      mass = 1000,
      gravityReduction = 892 / 1000,
      speed = 0,
      altitude = 1000,
      gForce = 1\<rparr>"

text \<open>
  The thrust vector of \<open>updatePhysics\<close>: six \<open>if\<close> statements in sequence, each adding
  to or subtracting from one component of a fresh zero vector.
\<close>

definition thrustForce :: "InputState \<Rightarrow> Vector3" where
  "thrustForce i =
     (let t0 = v3 0 0 0;
          t1 = (if forward i then t0\<lparr>vz := vz t0 - baseThrust\<rparr> else t0);
          t2 = (if backward i then t1\<lparr>vz := vz t1 + baseThrust\<rparr> else t1);
          t3 = (if left i then t2\<lparr>vx := vx t2 - baseThrust\<rparr> else t2);
          t4 = (if right i then t3\<lparr>vx := vx t3 + baseThrust\<rparr> else t3);
          t5 = (if up i then t4\<lparr>vy := vy t4 + baseThrust\<rparr> else t4);
          t6 = (if down i then t5\<lparr>vy := vy t5 - baseThrust\<rparr> else t5)
      in t6)"

text \<open>
  \<open>CraftController.updatePhysics(deltaTime, input)\<close>, statement by statement; the
  argument \<open>i\<close> is the value of \<open>input.getState()\<close>.
\<close>

definition updatePhysics :: "real \<Rightarrow> InputState \<Rightarrow> CraftState \<Rightarrow> CraftState" where
  "updatePhysics deltaTime i s =
     (let acc0 = v3 0 0 0;
          gravity = gravityStrength * (1 - gravityReduction s);
          acc1 = acc0\<lparr>vy := vy acc0 - gravity\<rparr>;
          thrust = thrustForce i;
          av = \<lparr>vx = pitch i * 2, vy = yaw i * 2, vz = roll i * 2\<rparr>;
          thrustW = applyEuler thrust (rotation s);
          acc2 = v3_add acc1 (v3_divideScalar thrustW (mass s));
          vel1 = v3_add (velocity s) (v3_multiplyScalar acc2 deltaTime);
          drag = 98 / 100;
          vel2 = v3_multiplyScalar vel1 drag;
          vel3 = (if v3_length vel2 > maxSpeed
                  then v3_multiplyScalar (v3_normalize vel2) maxSpeed else vel2);
          pos1 = v3_add (position s) (v3_multiplyScalar vel3 deltaTime);
          rot1 = \<lparr>ex = ex (rotation s) + vx av * deltaTime,
                  ey = ey (rotation s) + vy av * deltaTime,
                  ez = ez (rotation s) + vz av * deltaTime\<rparr>
      in s\<lparr>position := pos1,
           velocity := vel3,
           acceleration := acc2,
           rotation := rot1,
           angularVelocity := av,
           speed := v3_length vel3,
           altitude := vy pos1,
           gForce := max 1 (v3_length acc2 / gravityStrength)\<rparr>)"

text \<open>\<open>CraftController.reset()\<close>: eight assignments; \<open>mass\<close> and \<open>gravityReduction\<close> are not written.\<close>

definition reset :: "CraftState \<Rightarrow> CraftState" where
  "reset s =
     s\<lparr>position := v3 0 1000 0,
       velocity := v3 0 0 0,
       acceleration := v3 0 0 0,
       rotation := euler 0 0 0,
       angularVelocity := v3 0 0 0,
       speed := 0,
       altitude := 1000,
       gForce := 1\<rparr>"

text \<open>
  The operations a client can apply to a controller, and the state reached by a
  sequence of them from the constructor's state.
\<close>

datatype CraftOp = Update real InputState | Reset

fun craftStep :: "CraftState \<Rightarrow> CraftOp \<Rightarrow> CraftState" where
  "craftStep s (Update deltaTime i) = updatePhysics deltaTime i s"
| "craftStep s Reset = reset s"

definition craftRun :: "CraftOp list \<Rightarrow> CraftState" where
  "craftRun ops = foldl craftStep initialCraftState ops"

section \<open>The update in IEEE doubles\<close>

text \<open>
  A \<open>number\<close> of the program is an IEEE 754 double: 53 significant bits, every result
  rounded to the nearest double, ties to the even one.  Here a double is the real number
  it stands for.

  \<open>pow2 k\<close> is \<open>2\<close> to the power \<open>k\<close> for an integer \<open>k\<close>.  \<open>binade x\<close> is the exponent
  of the power of two at or below \<open>|x|\<close>; the doubles of that size are the multiples of
  \<open>pow2 (binade x - 52)\<close>.  \<open>rne\<close> rounds to the nearest integer, a half to the even
  neighbour.  \<open>fl x\<close> is the nearest double of \<open>x\<close>, with no bound on the exponent.
\<close>

definition pow2 :: "int \<Rightarrow> real" where
  "pow2 k = (if 0 \<le> k then 2 ^ nat k else 1 / 2 ^ nat (- k))"

definition rne :: "real \<Rightarrow> int" where
  "rne q =
     (let f = \<lfloor>q\<rfloor>
      in if q - of_int f < 1 / 2 then f
         else if 1 / 2 < q - of_int f then f + 1
         else if even f then f else f + 1)"

definition binade :: "real \<Rightarrow> int" where
  "binade x = \<lfloor>log 2 \<bar>x\<bar>\<rfloor>"

definition fl :: "real \<Rightarrow> real" where
  "fl x =
     (if x = 0 then 0
      else sgn x * of_int (rne (\<bar>x\<bar> / pow2 (binade x - 52))) * pow2 (binade x - 52))"

text \<open>
  The result of an operation whose exact value is \<open>x\<close>.  The exponent of a double is
  bounded: a result that is not zero and lies below \<open>pow2 (- 1022)\<close> would be subnormal,
  a result that rounds to \<open>pow2 1024\<close> or more would be infinite.  Such results, and
  those that the program would compute as \<open>NaN\<close>, are outside the model: they are
  \<open>None\<close>, and \<open>None\<close> spreads to everything computed from it.  (The two zeros of the
  format are one value here.)
\<close>

definition rnd :: "real \<Rightarrow> real option" where
  "rnd x =
     (if x = 0 then Some 0
      else if pow2 (- 1022) \<le> \<bar>x\<bar> \<and> \<bar>fl x\<bar> < pow2 1024 then Some (fl x)
      else None)"





definition ddiv :: "real \<Rightarrow> real \<Rightarrow> real option" where
  "ddiv a b = (if b = 0 then None else rnd (a / b))"






















section \<open>InputManager\<close>

text \<open>
  The private fields of \<open>InputManager\<close>.  \<open>keys\<close> is the set of key codes currently
  held; \<open>inputState\<close> is the record handed out by \<open>getState\<close>.
\<close>

record 't InputManagerFields =
  keys :: "string set"
  inputState :: "'t InputFields"
  lastTouchX :: real
  lastTouchY :: real
  gyroscopeEnabled :: bool
  gyroAlpha :: real
  gyroBeta :: real
  gyroGamma :: real

type_synonym InputManager = "Touch InputManagerFields"

text \<open>
  What the host offers for device orientation, as \<open>requestGyroscopePermission\<close> tests it:
  a \<open>requestPermission\<close> function, plain support, or nothing.
\<close>

datatype OrientationSupport = NeedsPermission | Supported | Unsupported

text \<open>
  The constructor.  \<open>requestGyroscopePermission\<close> runs up to its \<open>await\<close> inside the
  constructor, so plain support enables the gyroscope at once; the answer to a
  permission request arrives later as an event.
\<close>

definition newInputManager :: "OrientationSupport \<Rightarrow> InputManager" where
  "newInputManager support =
     \<lparr>keys = {},
      inputState =
        \<lparr>forward = False, backward = False, left = False, right = False,
         up = False, down = False, pitch = 0, yaw = 0, roll = 0,
         touch = \<lparr>active = False, tx = 0, ty = 0, deltaX = 0, deltaY = 0\<rparr>\<rparr>,
      lastTouchX = 0,
      lastTouchY = 0,
      gyroscopeEnabled = (support = Supported),
      gyroAlpha = 0,
      gyroBeta = 0,
      gyroGamma = 0\<rparr>"

text \<open>
  The raw events of the host.  A pointer event carries \<open>clientX\<close> and \<open>clientY\<close>; an
  orientation event carries three angles, each possibly \<open>null\<close>; the permission
  request either resolves with a string or rejects.
\<close>

datatype InputEvent =
    KeyDown string
  | KeyUp string
  | TouchStart real real
  | TouchMove real real
  | TouchEnd
  | MouseDown real real
  | MouseMove real real
  | MouseUp
  | DeviceOrientation "real option" "real option" "real option"
  | PermissionResolved string
  | PermissionRejected

text \<open>\<open>handleTouchStart\<close> and \<open>handleMouseDown\<close> have the same body.\<close>

definition handlePointerDown :: "real \<Rightarrow> real \<Rightarrow> InputManager \<Rightarrow> InputManager" where
  "handlePointerDown cx cy m =
     m\<lparr>inputState := (inputState m)\<lparr>touch := (touch (inputState m))\<lparr>active := True, tx := cx, ty := cy\<rparr>\<rparr>,
       lastTouchX := cx,
       lastTouchY := cy\<rparr>"

text \<open>\<open>handleTouchMove\<close> and \<open>handleMouseMove\<close>: nothing happens without an active contact.\<close>

definition handlePointerMove :: "real \<Rightarrow> real \<Rightarrow> InputManager \<Rightarrow> InputManager" where
  "handlePointerMove cx cy m =
     (if \<not> active (touch (inputState m)) then m
      else m\<lparr>inputState := (inputState m)\<lparr>touch := (touch (inputState m))
                 \<lparr>deltaX := cx - lastTouchX m, deltaY := cy - lastTouchY m\<rparr>\<rparr>,
             lastTouchX := cx,
             lastTouchY := cy\<rparr>)"

text \<open>\<open>handleTouchEnd\<close> and \<open>handleMouseUp\<close>.\<close>

definition handlePointerUp :: "InputManager \<Rightarrow> InputManager" where
  "handlePointerUp m =
     m\<lparr>inputState := (inputState m)\<lparr>touch := (touch (inputState m))
          \<lparr>active := False, deltaX := 0, deltaY := 0\<rparr>\<rparr>\<rparr>"

text \<open>The expression \<open>event.alpha || 0\<close>: \<open>null\<close> becomes \<open>0\<close>.\<close>

definition orZero :: "real option \<Rightarrow> real" where
  "orZero a = (case a of None \<Rightarrow> 0 | Some v \<Rightarrow> v)"

definition handleDeviceOrientation ::
  "real option \<Rightarrow> real option \<Rightarrow> real option \<Rightarrow> InputManager \<Rightarrow> InputManager" where
  "handleDeviceOrientation a b g m =
     (if \<not> gyroscopeEnabled m then m
      else m\<lparr>gyroAlpha := orZero a, gyroBeta := orZero b, gyroGamma := orZero g\<rparr>)"

fun handleEvent :: "InputManager \<Rightarrow> InputEvent \<Rightarrow> InputManager" where
  "handleEvent m (KeyDown code) = m\<lparr>keys := insert code (keys m)\<rparr>"
| "handleEvent m (KeyUp code) = m\<lparr>keys := keys m - {code}\<rparr>"
| "handleEvent m (TouchStart cx cy) = handlePointerDown cx cy m"
| "handleEvent m (TouchMove cx cy) = handlePointerMove cx cy m"
| "handleEvent m TouchEnd = handlePointerUp m"
| "handleEvent m (MouseDown cx cy) = handlePointerDown cx cy m"
| "handleEvent m (MouseMove cx cy) = handlePointerMove cx cy m"
| "handleEvent m MouseUp = handlePointerUp m"
| "handleEvent m (DeviceOrientation a b g) = handleDeviceOrientation a b g m"
| "handleEvent m (PermissionResolved p) = m\<lparr>gyroscopeEnabled := (p = ''granted'')\<rparr>"
| "handleEvent m PermissionRejected = m"

text \<open>\<open>Math.max(-1, Math.min(1, x))\<close>.\<close>

definition clampUnit :: "real \<Rightarrow> real" where
  "clampUnit x = max (- 1) (min 1 x)"

text \<open>\<open>InputManager.update()\<close>.\<close>

definition inputUpdate :: "InputManager \<Rightarrow> InputManager" where
  "inputUpdate m =
     (let i0 = inputState m;
          i1 = i0\<lparr>forward := (''KeyW'' \<in> keys m \<or> ''ArrowUp'' \<in> keys m),
                  backward := (''KeyS'' \<in> keys m \<or> ''ArrowDown'' \<in> keys m),
                  left := (''KeyA'' \<in> keys m \<or> ''ArrowLeft'' \<in> keys m),
                  right := (''KeyD'' \<in> keys m \<or> ''ArrowRight'' \<in> keys m),
                  up := (''Space'' \<in> keys m \<or> ''KeyQ'' \<in> keys m),
                  down := (''ShiftLeft'' \<in> keys m \<or> ''KeyE'' \<in> keys m)\<rparr>;
          sensitivity = 2 / 1000;
          i2 = (if active (touch i1)
                then i1\<lparr>yaw := - deltaX (touch i1) * sensitivity,
                        pitch := - deltaY (touch i1) * sensitivity\<rparr>
                else i1\<lparr>yaw := 0, pitch := 0\<rparr>);
          i3 = (if gyroscopeEnabled m \<and> \<bar>gyroGamma m\<bar> > 5
                then i2\<lparr>roll := gyroGamma m * (1 / 100),
                        pitch := pitch i2 + gyroBeta m * (5 / 1000),
                        yaw := yaw i2 + gyroAlpha m * (5 / 1000)\<rparr>
                else i2\<lparr>roll := 0\<rparr>);
          i4 = i3\<lparr>pitch := clampUnit (pitch i3)\<rparr>;
          i5 = i4\<lparr>yaw := clampUnit (yaw i4)\<rparr>;
          i6 = i5\<lparr>roll := clampUnit (roll i5)\<rparr>
      in m\<lparr>inputState := i6\<rparr>)"

text \<open>
  \<open>InputManager.getState()\<close> as a value: the fields of \<open>inputState\<close>.  (What the copy
  shares with the original is the subject of the object model further down.)
\<close>

definition inputGetState :: "InputManager \<Rightarrow> InputState" where
  "inputGetState m = inputState m"

text \<open>A sequence of raw events interleaved with calls of \<open>update\<close>.\<close>

datatype InputOp = Raw InputEvent | CallUpdate

fun inputStep :: "InputManager \<Rightarrow> InputOp \<Rightarrow> InputManager" where
  "inputStep m (Raw ev) = handleEvent m ev"
| "inputStep m CallUpdate = inputUpdate m"

definition inputRun :: "OrientationSupport \<Rightarrow> InputOp list \<Rightarrow> InputManager" where
  "inputRun support ops = foldl inputStep (newInputManager support) ops"

section \<open>Objects and references\<close>

text \<open>
  \<open>getState\<close> of both classes returns \<open>{ ...this.state }\<close>: a new object whose fields
  are copies of the fields of the original.  A field that holds a number or a boolean is
  copied as a value; a field that holds an object is copied as a reference to the same
  object.  To say what a snapshot shares with the controller, the objects live in a
  store and the fields hold references into it.
\<close>

type_synonym ref = nat

record Store =
  vectors :: "ref \<Rightarrow> Vector3"
  eulers :: "ref \<Rightarrow> Euler"
  touches :: "ref \<Rightarrow> Touch"
  nextRef :: ref

type_synonym CraftStateRef = "(ref, ref) CraftFields"

type_synonym InputStateRef = "ref InputFields"

type_synonym InputManagerRef = "ref InputManagerFields"

definition emptyStore :: Store where
  "emptyStore =
     \<lparr>vectors = (\<lambda>r. v3 0 0 0),
      eulers = (\<lambda>r. euler 0 0 0),
      touches = (\<lambda>r. \<lparr>active = False, tx = 0, ty = 0, deltaX = 0, deltaY = 0\<rparr>),
      nextRef = 0\<rparr>"

text \<open>\<open>new THREE.Vector3(a, b, c)\<close>, \<open>new THREE.Euler(a, b, c)\<close> and a touch object literal.\<close>

definition newVector3 :: "Vector3 \<Rightarrow> Store \<Rightarrow> ref \<times> Store" where
  "newVector3 v st =
     (nextRef st, st\<lparr>vectors := (vectors st)(nextRef st := v), nextRef := Suc (nextRef st)\<rparr>)"

definition newEuler :: "Euler \<Rightarrow> Store \<Rightarrow> ref \<times> Store" where
  "newEuler e st =
     (nextRef st, st\<lparr>eulers := (eulers st)(nextRef st := e), nextRef := Suc (nextRef st)\<rparr>)"

definition newTouch :: "Touch \<Rightarrow> Store \<Rightarrow> ref \<times> Store" where
  "newTouch t st =
     (nextRef st, st\<lparr>touches := (touches st)(nextRef st := t), nextRef := Suc (nextRef st)\<rparr>)"

text \<open>The constructor of \<open>CraftController\<close>: five new objects, then the state object.\<close>

definition newCraftController :: "Store \<Rightarrow> Store \<times> CraftStateRef" where
  "newCraftController st0 =
     (let (p, st1) = newVector3 (position initialCraftState) st0;
          (v, st2) = newVector3 (velocity initialCraftState) st1;
          (a, st3) = newVector3 (acceleration initialCraftState) st2;
          (r, st4) = newEuler (rotation initialCraftState) st3;
          (w, st5) = newVector3 (angularVelocity initialCraftState) st4
      in (st5,
          \<lparr>position = p, velocity = v, acceleration = a, rotation = r, angularVelocity = w,
           mass = mass initialCraftState,
           gravityReduction = gravityReduction initialCraftState,
           speed = speed initialCraftState,
           altitude = altitude initialCraftState,
           gForce = gForce initialCraftState\<rparr>))"

text \<open>Reading a state object: the values found behind its references.\<close>

definition craftDeref :: "Store \<Rightarrow> CraftStateRef \<Rightarrow> CraftState" where
  "craftDeref st c =
     \<lparr>position = vectors st (position c),
      velocity = vectors st (velocity c),
      acceleration = vectors st (acceleration c),
      rotation = eulers st (rotation c),
      angularVelocity = vectors st (angularVelocity c),
      mass = mass c,
      gravityReduction = gravityReduction c,
      speed = speed c,
      altitude = altitude c,
      gForce = gForce c\<rparr>"

text \<open>
  Writing into a state object.  \<open>updatePhysics\<close> and \<open>reset\<close> never assign a new object
  to one of the five object fields: every statement changes the object already there
  (\<open>set\<close>, \<open>add\<close>, \<open>multiplyScalar\<close>, \<open>normalize\<close>, \<open>.x +=\<close>; \<open>clone()\<close> is used for
  temporaries only).  So the references stay and the objects behind them get the new
  values; the number fields are assigned in the state object itself.
\<close>

definition craftWrite :: "CraftState \<Rightarrow> Store \<times> CraftStateRef \<Rightarrow> Store \<times> CraftStateRef" where
  "craftWrite s' sc =
     (let st = fst sc; c = snd sc;
          vs1 = (vectors st)(position c := position s');
          vs2 = vs1(velocity c := velocity s');
          vs3 = vs2(acceleration c := acceleration s');
          vs4 = vs3(angularVelocity c := angularVelocity s');
          es1 = (eulers st)(rotation c := rotation s')
      in (st\<lparr>vectors := vs4, eulers := es1\<rparr>,
          c\<lparr>mass := mass s', gravityReduction := gravityReduction s', speed := speed s',
            altitude := altitude s', gForce := gForce s'\<rparr>))"

definition updatePhysicsRef ::
  "real \<Rightarrow> InputState \<Rightarrow> Store \<times> CraftStateRef \<Rightarrow> Store \<times> CraftStateRef" where
  "updatePhysicsRef deltaTime i sc =
     craftWrite (updatePhysics deltaTime i (craftDeref (fst sc) (snd sc))) sc"

definition resetRef :: "Store \<times> CraftStateRef \<Rightarrow> Store \<times> CraftStateRef" where
  "resetRef sc = craftWrite (reset (craftDeref (fst sc) (snd sc))) sc"

text \<open>
  \<open>CraftController.getState()\<close>: \<open>{ ...this.state }\<close>.  The new object has the same
  contents, field by field, references included.
\<close>

definition craftGetStateRef :: "CraftStateRef \<Rightarrow> CraftStateRef" where
  "craftGetStateRef c = c"

text \<open>\<open>CraftController.getPosition()\<close>: \<open>this.state.position.clone()\<close>, a new object.\<close>

definition getPositionRef :: "Store \<times> CraftStateRef \<Rightarrow> ref \<times> Store" where
  "getPositionRef sc = newVector3 (vectors (fst sc) (position (snd sc))) (fst sc)"

text \<open>A client calling \<open>set\<close> on a vector it holds.\<close>

definition vectorSet :: "ref \<Rightarrow> Vector3 \<Rightarrow> Store \<Rightarrow> Store" where
  "vectorSet r v st = st\<lparr>vectors := (vectors st)(r := v)\<rparr>"

text \<open>The same for \<open>InputManager\<close>, whose \<open>inputState.touch\<close> is an object.\<close>

definition newInputManagerRef :: "OrientationSupport \<Rightarrow> Store \<Rightarrow> Store \<times> InputManagerRef" where
  "newInputManagerRef support st0 =
     (let m = newInputManager support;
          i = inputState m;
          (t, st1) = newTouch (touch i) st0
      in (st1,
          \<lparr>keys = keys m,
           inputState =
             \<lparr>forward = forward i, backward = backward i, left = left i, right = right i,
              up = up i, down = down i, pitch = pitch i, yaw = yaw i, roll = roll i,
              touch = t\<rparr>,
           lastTouchX = lastTouchX m,
           lastTouchY = lastTouchY m,
           gyroscopeEnabled = gyroscopeEnabled m,
           gyroAlpha = gyroAlpha m,
           gyroBeta = gyroBeta m,
           gyroGamma = gyroGamma m\<rparr>))"

definition inputStateDeref :: "Store \<Rightarrow> InputStateRef \<Rightarrow> InputState" where
  "inputStateDeref st i =
     \<lparr>forward = forward i, backward = backward i, left = left i, right = right i,
      up = up i, down = down i, pitch = pitch i, yaw = yaw i, roll = roll i,
      touch = touches st (touch i)\<rparr>"

definition inputDeref :: "Store \<Rightarrow> InputManagerRef \<Rightarrow> InputManager" where
  "inputDeref st m =
     \<lparr>keys = keys m,
      inputState = inputStateDeref st (inputState m),
      lastTouchX = lastTouchX m,
      lastTouchY = lastTouchY m,
      gyroscopeEnabled = gyroscopeEnabled m,
      gyroAlpha = gyroAlpha m,
      gyroBeta = gyroBeta m,
      gyroGamma = gyroGamma m\<rparr>"

text \<open>
  No handler and no statement of \<open>update\<close> assigns \<open>inputState.touch\<close>; they assign
  fields of the touch object.  So the reference stays, as above.
\<close>

definition inputWrite ::
  "InputManager \<Rightarrow> Store \<times> InputManagerRef \<Rightarrow> Store \<times> InputManagerRef" where
  "inputWrite m' sm =
     (let st = fst sm; m = snd sm; i' = inputState m'
      in (st\<lparr>touches := (touches st)(touch (inputState m) := touch i')\<rparr>,
          \<lparr>keys = keys m',
           inputState =
             \<lparr>forward = forward i', backward = backward i', left = left i', right = right i',
              up = up i', down = down i', pitch = pitch i', yaw = yaw i', roll = roll i',
              touch = touch (inputState m)\<rparr>,
           lastTouchX = lastTouchX m',
           lastTouchY = lastTouchY m',
           gyroscopeEnabled = gyroscopeEnabled m',
           gyroAlpha = gyroAlpha m',
           gyroBeta = gyroBeta m',
           gyroGamma = gyroGamma m'\<rparr>))"

definition handleEventRef ::
  "InputEvent \<Rightarrow> Store \<times> InputManagerRef \<Rightarrow> Store \<times> InputManagerRef" where
  "handleEventRef ev sm = inputWrite (handleEvent (inputDeref (fst sm) (snd sm)) ev) sm"

definition inputUpdateRef :: "Store \<times> InputManagerRef \<Rightarrow> Store \<times> InputManagerRef" where
  "inputUpdateRef sm = inputWrite (inputUpdate (inputDeref (fst sm) (snd sm))) sm"

text \<open>\<open>InputManager.getState()\<close>: \<open>{ ...this.inputState }\<close>.\<close>

definition inputGetStateRef :: "InputManagerRef \<Rightarrow> InputStateRef" where
  "inputGetStateRef m = inputState m"

text \<open>A client assigning \<open>snapshot.touch.active\<close>.\<close>

definition touchSetActive :: "ref \<Rightarrow> bool \<Rightarrow> Store \<Rightarrow> Store" where
  "touchSetActive r b st = st\<lparr>touches := (touches st)(r := (touches st r)\<lparr>active := b\<rparr>)\<rparr>"

section \<open>GameState\<close>

datatype GameMode = Menu | Playing | Paused

datatype HudMode = Normal | Stealth | Tactical

record Systems =
  propulsion :: bool
  cloaking :: bool
  sensors :: bool

record Hud =
  visible :: bool
  mode :: HudMode

text \<open>
  The interface \<open>GameState\<close>.  The five fields that share a name with a field of
  \<open>CraftState\<close> carry the prefix \<open>gs_\<close> here.
\<close>

record GameState =
  gameMode :: GameMode
  currentMission :: "string option"
  gs_position :: Vector3
  gs_velocity :: Vector3
  gs_altitude :: real
  gs_speed :: real
  gs_gForce :: real
  systems :: Systems
  hud :: Hud

definition initialGameState :: GameState where
  "initialGameState =
     \<lparr>gameMode = Menu,
      currentMission = None,
      gs_position = v3 0 1000 0,
      gs_velocity = v3 0 0 0,
      gs_altitude = 1000,
      gs_speed = 0,
      gs_gForce = 1,
      systems = \<lparr>propulsion = True, cloaking = False, sensors = True\<rparr>,
      hud = \<lparr>visible = True, mode = Normal\<rparr>\<rparr>"

text \<open>\<open>Partial<GameState>\<close>: every key may be absent.\<close>

record GameStateUpdate =
  u_gameMode :: "GameMode option"
  u_currentMission :: "string option option"
  u_position :: "Vector3 option"
  u_velocity :: "Vector3 option"
  u_altitude :: "real option"
  u_speed :: "real option"
  u_gForce :: "real option"
  u_systems :: "Systems option"
  u_hud :: "Hud option"

definition noUpdate :: GameStateUpdate where
  "noUpdate =
     \<lparr>u_gameMode = None, u_currentMission = None, u_position = None, u_velocity = None,
      u_altitude = None, u_speed = None, u_gForce = None, u_systems = None, u_hud = None\<rparr>"

text \<open>The spread \<open>{ ...prev, ...updates }\<close> on one key.\<close>

definition spread :: "'a \<Rightarrow> 'a option \<Rightarrow> 'a" where
  "spread prev upd = (case upd of None \<Rightarrow> prev | Some v \<Rightarrow> v)"

text \<open>
  The reducer inside \<open>updateGameState\<close>.  For \<open>systems\<close> and \<open>hud\<close> the given object is
  spread over the previous one; it has all keys of its type.
\<close>

definition updateGameState :: "GameState \<Rightarrow> GameStateUpdate \<Rightarrow> GameState" where
  "updateGameState prev updates =
     \<lparr>gameMode = spread (gameMode prev) (u_gameMode updates),
      currentMission = spread (currentMission prev) (u_currentMission updates),
      gs_position = spread (gs_position prev) (u_position updates),
      gs_velocity = spread (gs_velocity prev) (u_velocity updates),
      gs_altitude = spread (gs_altitude prev) (u_altitude updates),
      gs_speed = spread (gs_speed prev) (u_speed updates),
      gs_gForce = spread (gs_gForce prev) (u_gForce updates),
      systems =
        (case u_systems updates of
           Some sy \<Rightarrow> (systems prev)\<lparr>propulsion := propulsion sy, cloaking := cloaking sy,
                                      sensors := sensors sy\<rparr>
         | None \<Rightarrow> systems prev),
      hud =
        (case u_hud updates of
           Some h \<Rightarrow> (hud prev)\<lparr>visible := visible h, mode := mode h\<rparr>
         | None \<Rightarrow> hud prev)\<rparr>"

section \<open>GameEngine\<close>

text \<open>
  The engine together with the parts of its surroundings that its lifecycle methods
  read and write:
  \<^item> \<open>animationId\<close>, \<open>isInitialized\<close>, \<open>isPaused\<close>, \<open>craft\<close> and \<open>input\<close> are fields of
    \<open>GameEngine\<close>; of the three effect modules with a switch only the \<open>isActive\<close> field is
    kept (\<open>propulsionActive\<close>, \<open>cloakingActive\<close>, \<open>sensorsActive\<close>, with the initial values of
    the three classes);
  \<^item> \<open>frameCounter\<close> and \<open>pendingFrames\<close> are the host's side of
    \<open>requestAnimationFrame\<close>/\<open>cancelAnimationFrame\<close>: the last handle given out, and
    the handles whose callback is requested and has neither run nor been cancelled;
  \<^item> \<open>audioInitialized\<close> is the field \<open>isInitialized\<close> of the \<open>AudioSystem\<close>;
  \<^item> \<open>console\<close> collects the messages of \<open>console.error\<close> and \<open>console.warn\<close>;
  \<^item> \<open>gameState\<close> is the state behind the \<open>updateGameState\<close> callback the engine was
    constructed with (the state of \<open>useGameState\<close>);
  \<^item> \<open>ticks\<close> is bookkeeping of the model only: how often \<open>GameEngine.update()\<close> has been
    entered.
  The scene, the camera, the renderer, the audio context and the shader uniforms are
  outside the model; no statement that reads them writes one of the fields above.
\<close>

record GameEngine =
  animationId :: "nat option"
  isInitialized :: bool
  isPaused :: bool
  craft :: CraftState
  input :: InputManager
  propulsionActive :: bool
  cloakingActive :: bool
  sensorsActive :: bool
  audioInitialized :: bool
  frameCounter :: nat
  pendingFrames :: "nat set"
  console :: "string list"
  gameState :: GameState
  ticks :: nat

definition newGameEngine :: "OrientationSupport \<Rightarrow> GameEngine" where
  "newGameEngine support =
     \<lparr>animationId = None,
      isInitialized = False,
      isPaused = False,
      craft = initialCraftState,
      input = newInputManager support,
      propulsionActive = True,
      cloakingActive = False,
      sensorsActive = True,
      audioInitialized = False,
      frameCounter = 0,
      pendingFrames = {},
      console = [],
      gameState = initialGameState,
      ticks = 0\<rparr>"

text \<open>
  What a tick receives from outside: \<open>delta\<close> is the value of \<open>this.clock.getDelta()\<close>.

  \<open>activeCallsReturn\<close> concerns the three calls \<open>this.propulsion.isActive()\<close>,
  \<open>this.cloaking.isActive()\<close> and \<open>this.sensors.isActive()\<close> at the end of
  \<open>GameEngine.update()\<close>.  Each of the three classes declares a field \<open>isActive\<close> and a
  method \<open>isActive()\<close>.  In the emitted JavaScript the field is a property of the
  instance and hides the method of the prototype, so the call raises a TypeError
  (\<open>activeCallsReturn = False\<close>); read as the method the source writes, the call returns
  the field (\<open>activeCallsReturn = True\<close>).  The model takes the outcome as an input, and
  the results below hold for both.
\<close>

record TickEnv =
  delta :: real
  activeCallsReturn :: bool

datatype Completion = Returns | Throws

text \<open>
  \<open>GameEngine.update()\<close>.  The \<open>update\<close> methods of the effect modules, of the
  environment and of the audio system receive copies of the craft state and write to the
  scene and to their own fields only.
\<close>

definition engineUpdate :: "TickEnv \<Rightarrow> GameEngine \<Rightarrow> Completion \<times> GameEngine" where
  "engineUpdate t e =
     (let e0 = e\<lparr>ticks := Suc (ticks e)\<rparr>;
          e1 = e0\<lparr>input := inputUpdate (input e0)\<rparr>;
          e2 = e1\<lparr>craft := updatePhysics (delta t) (inputGetState (input e1)) (craft e1)\<rparr>
      in if activeCallsReturn t
         then (Returns,
               e2\<lparr>gameState := updateGameState (gameState e2)
                     (noUpdate\<lparr>u_position := Some (position (craft e2)),
                               u_velocity := Some (velocity (craft e2)),
                               u_altitude := Some (altitude (craft e2)),
                               u_speed := Some (speed (craft e2)),
                               u_gForce := Some (gForce (craft e2)),
                               u_systems := Some \<lparr>propulsion = propulsionActive e2,
                                                   cloaking = cloakingActive e2,
                                                   sensors = sensorsActive e2\<rparr>\<rparr>)\<rparr>)
         else (Throws, e2))"

text \<open>
  The closure \<open>animate\<close> of \<open>start()\<close>.  \<open>requestAnimationFrame\<close> hands out a fresh
  non-zero handle.  An exception of \<open>update()\<close> leaves \<open>animate\<close> before \<open>render()\<close>.
\<close>

definition animate :: "TickEnv \<Rightarrow> GameEngine \<Rightarrow> Completion \<times> GameEngine" where
  "animate t e =
     (if isPaused e then (Returns, e)
      else let h = Suc (frameCounter e);
               e1 = e\<lparr>frameCounter := h, pendingFrames := insert h (pendingFrames e)\<rparr>;
               e2 = e1\<lparr>animationId := Some h\<rparr>
           in engineUpdate t e2)"

text \<open>The test \<open>if (this.animationId)\<close>: neither \<open>null\<close> nor \<open>0\<close>.\<close>

definition truthy :: "nat option \<Rightarrow> bool" where
  "truthy a = (case a of None \<Rightarrow> False | Some n \<Rightarrow> n \<noteq> 0)"

text \<open>\<open>GameEngine.start()\<close>.\<close>

definition start :: "TickEnv \<Rightarrow> GameEngine \<Rightarrow> Completion \<times> GameEngine" where
  "start t e = (if truthy (animationId e) then (Returns, e) else animate t e)"

text \<open>
  The host runs the callback behind handle \<open>h\<close>, if it is still requested.
\<close>

definition frame :: "nat \<Rightarrow> TickEnv \<Rightarrow> GameEngine \<Rightarrow> Completion \<times> GameEngine" where
  "frame h t e =
     (if h \<in> pendingFrames e then animate t (e\<lparr>pendingFrames := pendingFrames e - {h}\<rparr>)
      else (Returns, e))"

text \<open>
  What \<open>initialize()\<close> meets.  Five of the six promises given to \<open>Promise.all\<close> come
  from \<open>initialize\<close> methods without a handler of their own, so each of them is fulfilled
  (\<open>True\<close>) or rejected (\<open>False\<close>).  The sixth comes from \<open>AudioSystem.initialize\<close>, which
  wraps its work in \<open>try\<close>/\<open>catch\<close>: \<open>audioContext\<close> says whether the \<open>try\<close> block (the
  creation of the audio context, of the gain node and of the oscillators) runs to its end.
\<close>

record InitOutcomes =
  craftInit :: bool
  propulsionInit :: bool
  cloakingInit :: bool
  sensorsInit :: bool
  environmentInit :: bool
  audioContext :: bool

definition audioFailedMessage :: string where
  "audioFailedMessage = ''Audio initialization failed:''"

text \<open>
  \<open>AudioSystem.initialize()\<close>.  A failure inside the \<open>try\<close> block is caught and logged
  with \<open>console.warn\<close>; the promise is fulfilled in every case.
\<close>

definition audioInitialize :: "bool \<Rightarrow> GameEngine \<Rightarrow> GameEngine" where
  "audioInitialize contextOk e =
     (if audioInitialized e then e
      else if contextOk then e\<lparr>audioInitialized := True\<rparr>
      else e\<lparr>console := console e @ [audioFailedMessage]\<rparr>)"

text \<open>\<open>Promise.all\<close> fulfils when the five promises that can reject are fulfilled.\<close>

definition allFulfilled :: "InitOutcomes \<Rightarrow> bool" where
  "allFulfilled out =
     (craftInit out \<and> propulsionInit out \<and> cloakingInit out \<and> sensorsInit out \<and>
      environmentInit out)"

definition initFailedMessage :: string where
  "initFailedMessage = ''Failed to initialize game engine:''"

text \<open>
  \<open>GameEngine.initialize()\<close>.  The six \<open>initialize\<close> methods are called while the array
  for \<open>Promise.all\<close> is built, so \<open>AudioSystem.initialize\<close> has run whatever the other
  promises do.  The \<open>try\<close> block covers \<open>Promise.all\<close>, the assignment of
  \<open>isInitialized\<close> and the call of \<open>start()\<close>; the \<open>catch\<close> block logs.
\<close>

definition initialize :: "InitOutcomes \<Rightarrow> TickEnv \<Rightarrow> GameEngine \<Rightarrow> GameEngine" where
  "initialize out t e =
     (if isInitialized e then e
      else let e0 = audioInitialize (audioContext out) e
           in if allFulfilled out
              then (let e1 = e0\<lparr>isInitialized := True\<rparr>;
                        r = start t e1
                    in (case fst r of
                          Returns \<Rightarrow> snd r
                        | Throws \<Rightarrow> (snd r)\<lparr>console := console (snd r) @ [initFailedMessage]\<rparr>))
              else e0\<lparr>console := console e0 @ [initFailedMessage]\<rparr>)"

text \<open>\<open>GameEngine.pause()\<close>.\<close>

definition pause :: "GameEngine \<Rightarrow> GameEngine" where
  "pause e =
     (let e1 = e\<lparr>isPaused := True\<rparr>
      in if truthy (animationId e1)
         then (case animationId e1 of
                 Some h \<Rightarrow> e1\<lparr>pendingFrames := pendingFrames e1 - {h}, animationId := None\<rparr>
               | None \<Rightarrow> e1)
         else e1)"

text \<open>\<open>GameEngine.resume()\<close>.\<close>

definition resume :: "TickEnv \<Rightarrow> GameEngine \<Rightarrow> Completion \<times> GameEngine" where
  "resume t e = start t (e\<lparr>isPaused := False\<rparr>)"

text \<open>
  \<open>GameEngine.startMission(mission)\<close>.  \<open>Environment.loadMission\<close> replaces the fog of
  the scene and nothing else.
\<close>

definition startMission :: "string \<Rightarrow> TickEnv \<Rightarrow> GameEngine \<Rightarrow> Completion \<times> GameEngine" where
  "startMission mission t e =
     (let e1 = e\<lparr>craft := reset (craft e)\<rparr>;
          e2 = e1\<lparr>isPaused := False\<rparr>
      in start t e2)"

text \<open>\<open>GameEngine.toggleSystem(system, enabled)\<close>.\<close>

definition toggleSystem :: "string \<Rightarrow> bool \<Rightarrow> GameEngine \<Rightarrow> GameEngine" where
  "toggleSystem system enabled e =
     (if system = ''propulsion'' then e\<lparr>propulsionActive := enabled\<rparr>
      else if system = ''cloaking'' then e\<lparr>cloakingActive := enabled\<rparr>
      else if system = ''sensors'' then e\<lparr>sensorsActive := enabled\<rparr>
      else e)"

text \<open>
  \<open>GameEngine.dispose()\<close>: \<open>pause()\<close>, then the release of the scene's meshes, the
  renderer and the audio context.
\<close>

definition dispose :: "GameEngine \<Rightarrow> GameEngine" where
  "dispose e = pause e"

text \<open>\<open>GameEngine.handleVisibilityChange()\<close>; the argument is \<open>document.hidden\<close>.\<close>

definition handleVisibilityChange :: "bool \<Rightarrow> GameEngine \<Rightarrow> GameEngine" where
  "handleVisibilityChange hidden e = (if hidden then pause e else e)"

text \<open>
  The three handlers of \<open>App\<close>: \<open>onMissionSelect\<close>, \<open>onSystemToggle\<close> (called by the HUD
  with one of the three system names) and \<open>onPause\<close>.  Each calls \<open>updateGameState\<close>
  and then the engine.
\<close>

definition onMissionSelect :: "string \<Rightarrow> TickEnv \<Rightarrow> GameEngine \<Rightarrow> Completion \<times> GameEngine" where
  "onMissionSelect mission t e =
     (let e1 = e\<lparr>gameState := updateGameState (gameState e)
                   (noUpdate\<lparr>u_gameMode := Some Playing,
                             u_currentMission := Some (Some mission)\<rparr>)\<rparr>
      in startMission mission t e1)"

definition onSystemToggle :: "string \<Rightarrow> bool \<Rightarrow> GameEngine \<Rightarrow> GameEngine" where
  "onSystemToggle system enabled e =
     (let sy = systems (gameState e);
          sy' = (if system = ''propulsion'' then sy\<lparr>propulsion := enabled\<rparr>
                 else if system = ''cloaking'' then sy\<lparr>cloaking := enabled\<rparr>
                 else if system = ''sensors'' then sy\<lparr>sensors := enabled\<rparr>
                 else sy);
          e1 = e\<lparr>gameState := updateGameState (gameState e) (noUpdate\<lparr>u_systems := Some sy'\<rparr>)\<rparr>
      in toggleSystem system enabled e1)"

definition onPause :: "GameEngine \<Rightarrow> GameEngine" where
  "onPause e =
     pause (e\<lparr>gameState := updateGameState (gameState e) (noUpdate\<lparr>u_gameMode := Some Paused\<rparr>)\<rparr>)"

text \<open>Everything that can happen to an engine, and the state after a sequence of it.\<close>

datatype EngineEvent =
    Initialize InitOutcomes TickEnv
  | Frame nat TickEnv
  | StartMission string TickEnv
  | ToggleSystem string bool
  | Pause
  | Resume TickEnv
  | Dispose
  | VisibilityChange bool
  | Input InputEvent
  | MissionSelect string TickEnv
  | SystemToggle string bool
  | PauseButton

fun engineStep :: "GameEngine \<Rightarrow> EngineEvent \<Rightarrow> GameEngine" where
  "engineStep e (Initialize out t) = initialize out t e"
| "engineStep e (Frame h t) = snd (frame h t e)"
| "engineStep e (StartMission mission t) = snd (startMission mission t e)"
| "engineStep e (ToggleSystem system enabled) = toggleSystem system enabled e"
| "engineStep e Pause = pause e"
| "engineStep e (Resume t) = snd (resume t e)"
| "engineStep e Dispose = dispose e"
| "engineStep e (VisibilityChange hidden) = handleVisibilityChange hidden e"
| "engineStep e (Input ev) = e\<lparr>input := handleEvent (input e) ev\<rparr>"
| "engineStep e (MissionSelect mission t) = snd (onMissionSelect mission t e)"
| "engineStep e (SystemToggle system enabled) = onSystemToggle system enabled e"
| "engineStep e PauseButton = onPause e"

definition engineRun :: "OrientationSupport \<Rightarrow> EngineEvent list \<Rightarrow> GameEngine" where
  "engineRun support evs = foldl engineStep (newGameEngine support) evs"

text \<open>The events that call \<open>resume()\<close> or \<open>startMission()\<close>.\<close>

fun rearms :: "EngineEvent \<Rightarrow> bool" where
  "rearms (Resume t) = True"
| "rearms (StartMission mission t) = True"
| "rearms (MissionSelect mission t) = True"
| "rearms ev = False"

section \<open>Inputs of the scenarios\<close>

text \<open>No key held, no contact, no rotation.\<close>

definition idleInput :: InputState where
  "idleInput =
     \<lparr>forward = False, backward = False, left = False, right = False,
      up = False, down = False, pitch = 0, yaw = 0, roll = 0,
      touch = \<lparr>active = False, tx = 0, ty = 0, deltaX = 0, deltaY = 0\<rparr>\<rparr>"

text \<open>The same with the flag \<open>up\<close> set.\<close>

definition upInput :: InputState where
  "upInput = idleInput\<lparr>up := True\<rparr>"


text \<open>
  Everything succeeds; the promise of the cloaking system is rejected; the audio context
  cannot be created.
\<close>

definition allOk :: InitOutcomes where
  "allOk =
     \<lparr>craftInit = True, propulsionInit = True, cloakingInit = True, sensorsInit = True,
      environmentInit = True, audioContext = True\<rparr>"



text \<open>A tick of a tenth of a second, with either outcome of the \<open>isActive()\<close> calls.\<close>

definition tickReturning :: TickEnv where
  "tickReturning = \<lparr>delta = 1 / 10, activeCallsReturn = True\<rparr>"

definition tickThrowing :: TickEnv where
  "tickThrowing = \<lparr>delta = 1 / 10, activeCallsReturn = False\<rparr>"

text \<open>
  Three engines: initialized and running; the same after \<open>dispose()\<close>; the same after
  the page was hidden.
\<close>

definition runningEngine :: GameEngine where
  "runningEngine = engineRun Supported [Initialize allOk tickReturning]"

definition disposedEngine :: GameEngine where
  "disposedEngine = engineRun Supported [Initialize allOk tickReturning, Dispose]"

definition hiddenEngine :: GameEngine where
  "hiddenEngine = engineRun Supported [Initialize allOk tickReturning, VisibilityChange True]"

text \<open>
  A new controller, the snapshot \<open>getState()\<close> returns for it, and the controller after
  one update of one second without input.
\<close>

definition craftBefore :: "Store \<times> CraftStateRef" where
  "craftBefore = newCraftController emptyStore"

definition craftSnapshot :: CraftStateRef where
  "craftSnapshot = craftGetStateRef (snd craftBefore)"

definition craftAfter :: "Store \<times> CraftStateRef" where
  "craftAfter = updatePhysicsRef 1 idleInput craftBefore"

text \<open>
  A new input manager, the snapshot \<open>getState()\<close> returns for it, and the manager after
  a \<open>mousedown\<close> at (3, 4).
\<close>

definition inputBefore :: "Store \<times> InputManagerRef" where
  "inputBefore = newInputManagerRef Unsupported emptyStore"

definition inputSnapshot :: InputStateRef where
  "inputSnapshot = inputGetStateRef (snd inputBefore)"

definition inputAfter :: "Store \<times> InputManagerRef" where
  "inputAfter = handleEventRef (MouseDown 3 4) inputBefore"
































section \<open>Invariants\<close>

text \<open>The three axes of an input manager lie in the unit range.\<close>

definition axesInRange :: "InputManager \<Rightarrow> bool" where
  "axesInRange m =
     (- 1 \<le> pitch (inputState m) \<and> pitch (inputState m) \<le> 1 \<and>
      - 1 \<le> yaw (inputState m) \<and> yaw (inputState m) \<le> 1 \<and>
      - 1 \<le> roll (inputState m) \<and> roll (inputState m) \<le> 1)"

text \<open>
  The engine knows every requested frame: the only handle that can be pending is the
  one in \<open>animationId\<close>, and that handle is not \<open>0\<close>.
\<close>

definition framesTracked :: "GameEngine \<Rightarrow> bool" where
  "framesTracked e =
     (pendingFrames e \<subseteq> set_option (animationId e) \<and> animationId e \<noteq> Some 0)"

text \<open>The loop stands still: paused, no handle, nothing requested.\<close>

definition halted :: "GameEngine \<Rightarrow> bool" where
  "halted e = (isPaused e \<and> animationId e = None \<and> pendingFrames e = {})"

section \<open>Vector arithmetic\<close>

lemma v3_length_multiplyScalar:
  "v3_length (v3_multiplyScalar a k) = \<bar>k\<bar> * v3_length a"
proof -
  have "vx a * k * (vx a * k) + vy a * k * (vy a * k) + vz a * k * (vz a * k)
        = k\<^sup>2 * (vx a * vx a + vy a * vy a + vz a * vz a)"
    by (simp add: power2_eq_square algebra_simps)
  then show ?thesis
    by (simp add: v3_length_def v3_multiplyScalar_def real_sqrt_mult)
qed

lemma v3_length_vertical: "v3_length \<lparr>vx = 0, vy = b, vz = 0\<rparr> = \<bar>b\<bar>"
  by (simp add: v3_length_def)

lemma renormalized_length:
  assumes "v3_length a > maxSpeed"
  shows "v3_length (v3_multiplyScalar (v3_normalize a) maxSpeed) = maxSpeed"
proof -
  have "v3_length a > 0"
    using assms by (simp add: maxSpeed_def)
  then show ?thesis
    by (simp add: v3_normalize_def v3_divideScalar_def v3_length_multiplyScalar maxSpeed_def)
qed

lemma applyEuler_level: "applyEuler v (euler 0 0 0) = v"
  by (simp add: applyEuler_def setFromEuler_def applyQuaternion_def euler_def Let_def)

section \<open>The integrator\<close>

lemma velocity_updatePhysics_bounded:
  "v3_length (velocity (updatePhysics dt i s)) \<le> maxSpeed"
  by (simp add: updatePhysics_def Let_def renormalized_length)

lemma speed_updatePhysics:
  "speed (updatePhysics dt i s) = v3_length (velocity (updatePhysics dt i s))"
  by (simp add: updatePhysics_def Let_def)

lemma craftStep_constants:
  "mass (craftStep s op) = mass s \<and> gravityReduction (craftStep s op) = gravityReduction s"
  by (cases op) (simp_all add: updatePhysics_def reset_def Let_def)

lemma foldl_craftStep_constants:
  "mass (foldl craftStep s ops) = mass s \<and>
   gravityReduction (foldl craftStep s ops) = gravityReduction s"
  by (induction ops arbitrary: s) (simp_all add: craftStep_constants)

lemma reset_eq_initial:
  assumes "mass s = 1000" and "gravityReduction s = 892 / 1000"
  shows "reset s = initialCraftState"
  using assms by (simp add: reset_def initialCraftState_def)

text \<open>
  Claim C1.  The mission is started (the craft is reset to its initial state, rotation
  zero) and then one update runs with a time step of 0.1 and only the flag \<open>up\<close> set.
  The claim expects an upward velocity and an altitude above 1000.  The code gives the
  opposite: the thrust of 500 on a mass of 1000 adds 0.5 to the vertical acceleration,
  the remaining gravity takes 9.81 * 0.108 = 1.05948 away, so after the tick the vertical
  velocity is -0.05482904 and the altitude is 999.994517096.
\<close>

theorem up_thrust_from_rest_sinks:
  "vy (velocity (updatePhysics (1 / 10) upInput (reset initialCraftState))) = - (5482904 / 100000000)
   \<and> altitude (updatePhysics (1 / 10) upInput (reset initialCraftState)) = 999994517096 / 1000000000
   \<and> vy (velocity (updatePhysics (1 / 10) upInput (reset initialCraftState))) < 0
   \<and> altitude (updatePhysics (1 / 10) upInput (reset initialCraftState)) < 1000"
  by (simp add: updatePhysics_def reset_def initialCraftState_def upInput_def idleInput_def Let_def
      thrustForce_def applyEuler_level v3_def v3_add_def v3_divideScalar_def v3_multiplyScalar_def
      baseThrust_def gravityStrength_def v3_length_vertical maxSpeed_def)

text \<open>
  In exact arithmetic the limited velocity has length 2000 exactly, so there the speed
  never exceeds 2000.  (The program computes in doubles; see the sections on doubles.)
\<close>

lemma speed_bounded_in_exact_arithmetic:
  "v3_length (velocity (craftRun (ops @ [Update dt i]))) \<le> 2000
   \<and> speed (craftRun (ops @ [Update dt i])) \<le> 2000"
  using velocity_updatePhysics_bounded [of dt i "foldl craftStep initialCraftState ops"]
  by (simp add: craftRun_def speed_updatePhysics maxSpeed_def)

text \<open>
  Claim C8.  After an update from any state, \<open>gForce\<close> is at least 1 and equals the
  larger of 1 and the length of the acceleration divided by 9.81.
\<close>

theorem gForce_floor:
  "1 \<le> gForce (updatePhysics dt i s)
   \<and> gForce (updatePhysics dt i s)
       = max 1 (v3_length (acceleration (updatePhysics dt i s)) / (981 / 100))"
  by (simp add: updatePhysics_def Let_def gravityStrength_def)

text \<open>
  Claim C9.  From every state that updates and resets reach, \<open>reset\<close> gives exactly the
  constructor's state: position (0, 1000, 0); zero velocity, acceleration, rotation and
  angular velocity; speed 0, altitude 1000, g-force 1.  A second \<open>reset\<close> changes nothing.
\<close>

theorem reset_restores_initial_state:
  "reset (craftRun ops) = initialCraftState
   \<and> reset (reset (craftRun ops)) = reset (craftRun ops)
   \<and> position (reset (craftRun ops)) = v3 0 1000 0
   \<and> velocity (reset (craftRun ops)) = v3 0 0 0
   \<and> acceleration (reset (craftRun ops)) = v3 0 0 0
   \<and> rotation (reset (craftRun ops)) = euler 0 0 0
   \<and> angularVelocity (reset (craftRun ops)) = v3 0 0 0
   \<and> speed (reset (craftRun ops)) = 0
   \<and> altitude (reset (craftRun ops)) = 1000
   \<and> gForce (reset (craftRun ops)) = 1"
proof -
  have restored: "reset (craftRun ops) = initialCraftState"
    using foldl_craftStep_constants [of initialCraftState ops]
    by (intro reset_eq_initial) (simp_all add: craftRun_def initialCraftState_def)
  have again: "reset (reset (craftRun ops)) = reset (craftRun ops)"
    by (simp add: reset_def)
  have fields:
    "position (reset (craftRun ops)) = v3 0 1000 0
     \<and> velocity (reset (craftRun ops)) = v3 0 0 0
     \<and> acceleration (reset (craftRun ops)) = v3 0 0 0
     \<and> rotation (reset (craftRun ops)) = euler 0 0 0
     \<and> angularVelocity (reset (craftRun ops)) = v3 0 0 0
     \<and> speed (reset (craftRun ops)) = 0
     \<and> altitude (reset (craftRun ops)) = 1000
     \<and> gForce (reset (craftRun ops)) = 1"
    by (simp add: reset_def)
  from restored again fields show ?thesis
    by blast
qed

text \<open>
  Claim C10.  In every state that updates and resets reach, \<open>mass\<close> is 1000 and
  \<open>gravityReduction\<close> is 0.892, the values of the constructor.
\<close>

theorem mass_and_gravityReduction_constant:
  "mass (craftRun ops) = 1000 \<and> gravityReduction (craftRun ops) = 892 / 1000"
  using foldl_craftStep_constants [of initialCraftState ops]
  by (simp add: craftRun_def initialCraftState_def)

section \<open>Rounding to the nearest double\<close>

text \<open>One rounding changes a value by at most the fraction \<open>unitRoundoff\<close> of it.\<close>

lemma pow2_powr: "pow2 k = 2 powr (of_int k)"
  by (auto simp add: pow2_def powr_realpow [symmetric] powr_minus field_simps)

lemma pow2_pos [simp]: "0 < pow2 k"
  by (simp add: pow2_powr)

lemma pow2_nonzero [simp]: "pow2 k \<noteq> 0"
  using pow2_pos [of k] by linarith

lemma pow2_abs [simp]: "\<bar>pow2 k\<bar> = pow2 k"
  using pow2_pos [of k] by linarith

lemma pow2_nonneg [simp]: "0 \<le> pow2 k"
  using pow2_pos [of k] by linarith

lemma pow2_add: "pow2 (j + k) = pow2 j * pow2 k"
  by (simp add: pow2_powr powr_add)

lemma pow2_mono: "j \<le> k \<Longrightarrow> pow2 j \<le> pow2 k"
  by (simp add: pow2_powr)

lemma rne_near: "\<bar>of_int (rne q) - q\<bar> \<le> 1 / 2"
  unfolding rne_def Let_def by (auto; linarith)

lemma rne_eq: "\<bar>q - of_int m\<bar> < 1 / 2 \<Longrightarrow> rne q = m"
proof -
  assume a: "\<bar>q - of_int m\<bar> < 1 / 2"
  have "\<bar>of_int (rne q) - q\<bar> \<le> 1 / 2" by (rule rne_near)
  with a have "\<bar>(of_int (rne q) :: real) - of_int m\<bar> < 1" by linarith
  then have "\<bar>rne q - m\<bar> < 1"
    by (metis of_int_diff of_int_abs of_int_less_1_iff)
  then show ?thesis by linarith
qed


lemma binade_eq:
  assumes "pow2 k \<le> \<bar>x\<bar>" and "\<bar>x\<bar> < pow2 (k + 1)"
  shows "binade x = k"
proof -
  from assms have pos: "0 < \<bar>x\<bar>" using pow2_pos [of k] by linarith
  from assms(1) pos have "of_int k \<le> log 2 \<bar>x\<bar>"
    by (simp add: pow2_powr le_log_iff)
  moreover from assms(2) pos have "log 2 \<bar>x\<bar> < of_int (k + 1)"
    by (simp add: pow2_powr log_less_iff)
  ultimately show ?thesis
    unfolding binade_def by linarith
qed



lemma fl_eval:
  assumes "0 < x" and "pow2 k \<le> x" and "x < pow2 (k + 1)"
    and "\<bar>x / pow2 (k - 52) - of_int m\<bar> < 1 / 2"
  shows "fl x = of_int m * pow2 (k - 52)"
proof -
  from assms have "binade x = k" by (intro binade_eq) simp_all
  with assms show ?thesis by (simp add: fl_def rne_eq)
qed

lemma fl_minus: "fl (- x) = - fl x"
  by (simp add: fl_def binade_def sgn_if)

lemma rnd_minus: "rnd (- x) = map_option uminus (rnd x)"
  by (simp add: rnd_def fl_minus)




section \<open>Evaluating one operation\<close>

text \<open>
  To compute a rounded result it is enough to name the exponent \<open>k\<close> of the exact value
  and the integer \<open>m\<close> nearest to the exact value divided by \<open>pow2 (k - 52)\<close>.
\<close>

lemma rnd_eval:
  assumes "0 < x" and "pow2 k \<le> x" and "x < pow2 (k + 1)"
    and "\<bar>x / pow2 (k - 52) - of_int m\<bar> < 1 / 2"
    and "- 1022 \<le> k" and "k \<le> 1022"
    and "y = of_int m * pow2 (k - 52)"
  shows "rnd x = Some y"
proof -
  have flx: "fl x = y"
    using assms(1-4,7) by (simp add: fl_eval)
  have lo: "pow2 (- 1022) \<le> \<bar>x\<bar>"
    using pow2_mono [OF assms(5)] assms(1,2) by simp
  have "x / pow2 (k - 52) < pow2 53"
  proof -
    have "pow2 (k + 1) = pow2 ((k - 52) + 53)"
      by (rule arg_cong [where f = pow2]) simp
    then have "pow2 (k + 1) = pow2 (k - 52) * pow2 53"
      by (simp only: pow2_add)
    with assms(3) show ?thesis by (simp add: field_simps)
  qed
  with assms(4) have "of_int m < pow2 53 + 1 / 2" by linarith
  then have "(of_int m :: real) < of_int (2 ^ 53 + 1)" by (simp add: pow2_def)
  then have "m < 2 ^ 53 + 1" by (simp only: of_int_less_iff)
  then have "m \<le> 2 ^ 53" by simp
  then have "(of_int m :: real) \<le> of_int (2 ^ 53)" by (simp only: of_int_le_iff)
  then have "(of_int m :: real) \<le> pow2 53"
    by (simp add: pow2_def)
  then have "of_int m * pow2 (k - 52) \<le> pow2 53 * pow2 (k - 52)"
    by (intro mult_right_mono) simp_all
  also have "\<dots> = pow2 (53 + (k - 52))"
    by (simp only: pow2_add)
  also have "\<dots> = pow2 (k + 1)"
    by (rule arg_cong [where f = pow2]) simp
  also have "\<dots> \<le> pow2 1023"
    using assms(6) by (intro pow2_mono) simp
  also have "\<dots> < pow2 1024"
    by (simp add: pow2_def)
  finally have hi: "y < pow2 1024" using assms(7) by simp
  have "0 \<le> x / pow2 (k - 52)" using assms(1) by simp
  with assms(4) have "- 1 < (of_int m :: real)" by linarith
  then have "0 \<le> m" by linarith
  then have "0 \<le> y" using assms(7) by simp
  with hi lo flx assms(1) show ?thesis by (simp add: rnd_def)
qed

lemma rnd_eval_neg:
  assumes "x < 0" and "pow2 k \<le> - x" and "- x < pow2 (k + 1)"
    and "\<bar>(- x) / pow2 (k - 52) - of_int m\<bar> < 1 / 2"
    and "- 1022 \<le> k" and "k \<le> 1022"
    and "y = - (of_int m * pow2 (k - 52))"
  shows "rnd x = Some y"
proof -
  have "rnd (- x) = Some (- y)"
    using assms by (intro rnd_eval [where k = k and m = m]) simp_all
  then show ?thesis using rnd_minus [of "- x"] by simp
qed



lemma ddiv_eval_neg:
  assumes "b \<noteq> 0" and "a / b < 0" and "pow2 k \<le> - (a / b)" and "- (a / b) < pow2 (k + 1)"
    and "\<bar>(- (a / b)) / pow2 (k - 52) - of_int m\<bar> < 1 / 2"
    and "- 1022 \<le> k" and "k \<le> 1022"
    and "y = - (of_int m * pow2 (k - 52))"
  shows "ddiv a b = Some y"
  using assms(1) rnd_eval_neg [OF assms(2-8)] by (simp add: ddiv_def)

section \<open>The speed limit in doubles\<close>












section \<open>The scenario in doubles, operation by operation\<close>




































































section \<open>The bound on the speed\<close>




section \<open>The axes of the input manager\<close>

lemma clampUnit_range: "- 1 \<le> clampUnit x \<and> clampUnit x \<le> 1"
  by (simp add: clampUnit_def)

lemma axesInRange_inputUpdate: "axesInRange (inputUpdate m)"
  by (simp add: axesInRange_def inputUpdate_def Let_def clampUnit_range)

lemma axesInRange_handleEvent: "axesInRange m \<Longrightarrow> axesInRange (handleEvent m ev)"
  by (cases ev)
     (simp_all add: axesInRange_def handlePointerDown_def handlePointerMove_def
        handlePointerUp_def handleDeviceOrientation_def)

lemma axesInRange_inputStep: "axesInRange m \<Longrightarrow> axesInRange (inputStep m op)"
  by (cases op) (simp_all add: axesInRange_inputUpdate axesInRange_handleEvent)

lemma axesInRange_foldl: "axesInRange m \<Longrightarrow> axesInRange (foldl inputStep m ops)"
  by (induction ops arbitrary: m) (simp_all add: axesInRange_inputStep)

lemma axesInRange_new: "axesInRange (newInputManager support)"
  by (simp add: axesInRange_def newInputManager_def)

text \<open>
  Claim C7.  After every sequence of raw events (keys, pointer and touch contacts,
  device orientation, the answer to the permission request) and calls of \<open>update\<close>,
  the pitch, the yaw and the roll that \<open>getState\<close> returns lie between -1 and 1.
\<close>

theorem axes_always_in_unit_range:
  "- 1 \<le> pitch (inputGetState (inputRun support ops))
   \<and> pitch (inputGetState (inputRun support ops)) \<le> 1
   \<and> - 1 \<le> yaw (inputGetState (inputRun support ops))
   \<and> yaw (inputGetState (inputRun support ops)) \<le> 1
   \<and> - 1 \<le> roll (inputGetState (inputRun support ops))
   \<and> roll (inputGetState (inputRun support ops)) \<le> 1"
  using axesInRange_foldl [OF axesInRange_new, of support ops]
  by (simp add: axesInRange_def inputRun_def inputGetState_def)

section \<open>Snapshots and the objects they share\<close>

text \<open>
  The object model agrees with the arithmetic one: where the four vector fields refer to
  four different objects, as they do after the constructor, reading the state after a
  write gives what was written.
\<close>

lemma craftDeref_craftWrite:
  assumes "distinct [position c, velocity c, acceleration c, angularVelocity c]"
  shows "craftDeref (fst (craftWrite s' (st, c))) (snd (craftWrite s' (st, c))) = s'"
  using assms by (simp add: craftDeref_def craftWrite_def Let_def)

lemma craftDeref_updatePhysicsRef:
  assumes "distinct [position c, velocity c, acceleration c, angularVelocity c]"
  shows "craftDeref (fst (updatePhysicsRef dt i (st, c))) (snd (updatePhysicsRef dt i (st, c)))
           = updatePhysics dt i (craftDeref st c)"
  using craftDeref_craftWrite [OF assms] by (simp add: updatePhysicsRef_def)

lemma craftBefore_eval:
  "craftBefore =
     (\<lparr>vectors = (\<lambda>r. v3 0 0 0)(0 := v3 0 1000 0, 1 := v3 0 0 0, 2 := v3 0 0 0, 4 := v3 0 0 0),
       eulers = (\<lambda>r. euler 0 0 0)(3 := euler 0 0 0),
       touches = touches emptyStore,
       nextRef = 5\<rparr>,
      \<lparr>position = 0, velocity = 1, acceleration = 2, rotation = 3, angularVelocity = 4,
       mass = 1000, gravityReduction = 892 / 1000, speed = 0, altitude = 1000, gForce = 1\<rparr>)"
  by (simp add: craftBefore_def newCraftController_def newVector3_def newEuler_def emptyStore_def
      initialCraftState_def Let_def numeral_eq_Suc)

lemma craftDeref_craftBefore: "craftDeref (fst craftBefore) (snd craftBefore) = initialCraftState"
  by (simp add: craftBefore_eval craftDeref_def initialCraftState_def)

lemma idle_second:
  "position (updatePhysics 1 idleInput initialCraftState) = v3 0 (9989617096 / 10000000) 0"
  by (simp add: updatePhysics_def initialCraftState_def idleInput_def Let_def thrustForce_def
      applyEuler_level v3_def v3_add_def v3_divideScalar_def v3_multiplyScalar_def
      baseThrust_def gravityStrength_def v3_length_vertical maxSpeed_def)

lemma snapshot_position_before:
  "vectors (fst craftBefore) (position craftSnapshot) = v3 0 1000 0"
  by (simp add: craftSnapshot_def craftGetStateRef_def craftBefore_eval)

lemma snapshot_position_after:
  "vectors (fst craftAfter) (position craftSnapshot) = v3 0 (9989617096 / 10000000) 0"
  unfolding craftAfter_def updatePhysicsRef_def craftDeref_craftBefore craftSnapshot_def
    craftGetStateRef_def
  by (simp add: craftWrite_def Let_def craftBefore_eval idle_second)

lemma snapshot_position_written:
  "position (craftDeref (vectorSet (position craftSnapshot) (v3 1 2 3) (fst craftBefore))
               (snd craftBefore)) = v3 1 2 3"
  by (simp add: craftSnapshot_def craftGetStateRef_def craftBefore_eval vectorSet_def
      craftDeref_def)

lemma snapshot_touch_events:
  "active (touches (fst inputBefore) (touch inputSnapshot)) = False
   \<and> active (touches (fst inputAfter) (touch inputSnapshot)) = True"
  by (simp add: inputAfter_def inputSnapshot_def inputBefore_def inputGetStateRef_def
      handleEventRef_def newInputManagerRef_def newInputManager_def newTouch_def emptyStore_def
      Let_def inputWrite_def inputDeref_def inputStateDeref_def handlePointerDown_def)

lemma snapshot_touch_written:
  "active (touch (inputState (inputDeref
      (touchSetActive (touch inputSnapshot) True (fst inputBefore)) (snd inputBefore)))) = True"
  by (simp add: inputSnapshot_def inputBefore_def inputGetStateRef_def newInputManagerRef_def
      newInputManager_def newTouch_def emptyStore_def Let_def touchSetActive_def
      inputDeref_def inputStateDeref_def)

text \<open>
  The accessor next to \<open>getState\<close> does copy: the vector \<open>getPosition()\<close> returns keeps
  its value when the controller is updated afterwards.
\<close>

lemma getPosition_is_a_copy:
  "vectors (fst (updatePhysicsRef 1 idleInput (snd (getPositionRef craftBefore), snd craftBefore)))
     (fst (getPositionRef craftBefore)) = v3 0 1000 0"
  by (simp add: getPositionRef_def newVector3_def craftBefore_eval updatePhysicsRef_def
      craftWrite_def Let_def)

text \<open>
  Claim C3.  The claim says that a snapshot from \<open>getState()\<close> shares nothing with the
  state it was taken from.  The code copies one level only, so the nested objects are
  shared, in both classes and in both directions:
  \<^item> the position seen through a snapshot of a new controller is (0, 1000, 0), and after
    one update of the controller the same snapshot shows (0, 998.9617096, 0);
  \<^item> \<open>set(1, 2, 3)\<close> on the snapshot's position changes the controller's position;
  \<^item> the touch record seen through a snapshot of a new input manager is inactive, and
    after a \<open>mousedown\<close> the same snapshot shows it active;
  \<^item> assigning \<open>touch.active\<close> through the snapshot changes the manager's touch record.
\<close>

theorem getState_snapshot_shares_objects:
  "vectors (fst craftBefore) (position craftSnapshot) = v3 0 1000 0
   \<and> vectors (fst craftAfter) (position craftSnapshot) = v3 0 (9989617096 / 10000000) 0
   \<and> position (craftDeref (vectorSet (position craftSnapshot) (v3 1 2 3) (fst craftBefore))
                  (snd craftBefore)) = v3 1 2 3
   \<and> active (touches (fst inputBefore) (touch inputSnapshot)) = False
   \<and> active (touches (fst inputAfter) (touch inputSnapshot)) = True
   \<and> active (touch (inputState (inputDeref
        (touchSetActive (touch inputSnapshot) True (fst inputBefore)) (snd inputBefore)))) = True"
  using snapshot_position_before snapshot_position_after snapshot_position_written
    snapshot_touch_events snapshot_touch_written
  by blast

section \<open>The frames the engine has requested\<close>

lemma engineUpdate_frames:
  "animationId (snd (engineUpdate t e)) = animationId e"
  "pendingFrames (snd (engineUpdate t e)) = pendingFrames e"
  "isPaused (snd (engineUpdate t e)) = isPaused e"
  by (simp_all add: engineUpdate_def Let_def)

lemma framesTracked_other_fields [simp]:
  "framesTracked (e\<lparr>isPaused := b\<rparr>) = framesTracked e"
  "framesTracked (e\<lparr>craft := c\<rparr>) = framesTracked e"
  "framesTracked (e\<lparr>gameState := g\<rparr>) = framesTracked e"
  "framesTracked (e\<lparr>input := i\<rparr>) = framesTracked e"
  "framesTracked (e\<lparr>isInitialized := b\<rparr>) = framesTracked e"
  "framesTracked (e\<lparr>console := l\<rparr>) = framesTracked e"
  "framesTracked (e\<lparr>propulsionActive := b\<rparr>) = framesTracked e"
  "framesTracked (e\<lparr>cloakingActive := b\<rparr>) = framesTracked e"
  "framesTracked (e\<lparr>sensorsActive := b\<rparr>) = framesTracked e"
  "framesTracked (e\<lparr>audioInitialized := b\<rparr>) = framesTracked e"
  by (simp_all add: framesTracked_def)

lemma animate_tracked:
  "framesTracked e \<Longrightarrow> pendingFrames e = {} \<Longrightarrow> framesTracked (snd (animate t e))"
  by (simp add: animate_def Let_def framesTracked_def engineUpdate_frames)

lemma start_tracked: "framesTracked e \<Longrightarrow> framesTracked (snd (start t e))"
proof (cases "animationId e")
  case None
  assume tr: "framesTracked e"
  with None have "pendingFrames e = {}"
    by (simp add: framesTracked_def)
  with tr None show ?thesis
    by (simp add: start_def truthy_def animate_tracked)
next
  case (Some h)
  assume "framesTracked e"
  with Some show ?thesis
    by (simp add: start_def truthy_def framesTracked_def)
qed

lemma pause_tracked: "framesTracked e \<Longrightarrow> framesTracked (pause e)"
  by (auto simp add: pause_def Let_def framesTracked_def truthy_def split: option.splits)

lemma pause_halted: "framesTracked e \<Longrightarrow> halted (pause e)"
  by (auto simp add: pause_def Let_def framesTracked_def halted_def truthy_def
      split: option.splits)

lemma frame_tracked: "framesTracked e \<Longrightarrow> framesTracked (snd (frame h t e))"
proof (cases "h \<in> pendingFrames e")
  case True
  assume tr: "framesTracked e"
  let ?e = "e\<lparr>pendingFrames := pendingFrames e - {h}\<rparr>"
  from tr True have "framesTracked ?e" "pendingFrames ?e = {}"
    by (cases "animationId e"; auto simp add: framesTracked_def)+
  then have "framesTracked (snd (animate t ?e))"
    by (rule animate_tracked)
  with True show ?thesis
    by (simp add: frame_def)
next
  case False
  assume "framesTracked e"
  with False show ?thesis
    by (simp add: frame_def)
qed

lemma audioInitialize_tracked [simp]:
  "framesTracked (audioInitialize ok e) = framesTracked e"
  by (simp add: audioInitialize_def)

lemma initialize_tracked: "framesTracked e \<Longrightarrow> framesTracked (initialize out t e)"
  using start_tracked [of "(audioInitialize (audioContext out) e)\<lparr>isInitialized := True\<rparr>" t]
  by (simp add: initialize_def Let_def split: Completion.splits)

lemma engineStep_tracked:
  assumes "framesTracked e"
  shows "framesTracked (engineStep e ev)"
proof (cases ev)
  case (Initialize out t)
  with assms show ?thesis by (simp add: initialize_tracked)
next
  case (Frame h t)
  with assms show ?thesis by (simp add: frame_tracked)
next
  case (StartMission m t)
  with assms show ?thesis by (simp add: startMission_def Let_def start_tracked)
next
  case (ToggleSystem sy b)
  with assms show ?thesis by (simp add: toggleSystem_def)
next
  case Pause
  with assms show ?thesis by (simp add: pause_tracked)
next
  case (Resume t)
  with assms show ?thesis by (simp add: resume_def start_tracked)
next
  case Dispose
  with assms show ?thesis by (simp add: dispose_def pause_tracked)
next
  case (VisibilityChange b)
  with assms show ?thesis by (simp add: handleVisibilityChange_def pause_tracked)
next
  case (Input i)
  with assms show ?thesis by simp
next
  case (MissionSelect m t)
  with assms show ?thesis by (simp add: onMissionSelect_def startMission_def Let_def start_tracked)
next
  case (SystemToggle sy b)
  with assms show ?thesis by (simp add: onSystemToggle_def Let_def toggleSystem_def)
next
  case PauseButton
  with assms show ?thesis by (simp add: onPause_def pause_tracked)
qed

lemma foldl_tracked: "framesTracked e \<Longrightarrow> framesTracked (foldl engineStep e evs)"
  by (induction evs arbitrary: e) (simp_all add: engineStep_tracked)

lemma engineRun_tracked: "framesTracked (engineRun support evs)"
  unfolding engineRun_def
  by (rule foldl_tracked) (simp add: framesTracked_def newGameEngine_def)

section \<open>A halted loop stays halted\<close>

lemma halted_step:
  assumes "halted e" and "\<not> rearms ev"
  shows "halted (engineStep e ev) \<and> ticks (engineStep e ev) = ticks e
         \<and> craft (engineStep e ev) = craft e"
  using assms
  by (cases ev)
     (auto simp add: halted_def initialize_def audioInitialize_def start_def animate_def
        truthy_def frame_def toggleSystem_def pause_def dispose_def handleVisibilityChange_def
        onSystemToggle_def onPause_def Let_def)

lemma halted_foldl:
  assumes "halted e" and "\<forall>ev \<in> set evs. \<not> rearms ev"
  shows "halted (foldl engineStep e evs) \<and> ticks (foldl engineStep e evs) = ticks e
         \<and> craft (foldl engineStep e evs) = craft e"
  using assms
proof (induction evs arbitrary: e)
  case Nil
  then show ?case by simp
next
  case (Cons ev evs)
  from Cons.prems have st:
    "halted (engineStep e ev) \<and> ticks (engineStep e ev) = ticks e
     \<and> craft (engineStep e ev) = craft e"
    by (intro halted_step) simp_all
  from Cons.prems have "\<forall>ev \<in> set evs. \<not> rearms ev"
    by simp
  with st Cons.IH [of "engineStep e ev"] show ?case
    by simp
qed

section \<open>The constants of the craft inside the engine\<close>

lemma engineUpdate_constants:
  "mass (craft (snd (engineUpdate t e))) = mass (craft e) \<and>
   gravityReduction (craft (snd (engineUpdate t e))) = gravityReduction (craft e)"
  by (simp add: engineUpdate_def updatePhysics_def Let_def)

lemma animate_constants:
  "mass (craft (snd (animate t e))) = mass (craft e) \<and>
   gravityReduction (craft (snd (animate t e))) = gravityReduction (craft e)"
  by (simp add: animate_def engineUpdate_constants Let_def)

lemma start_constants:
  "mass (craft (snd (start t e))) = mass (craft e) \<and>
   gravityReduction (craft (snd (start t e))) = gravityReduction (craft e)"
  by (simp add: start_def animate_constants)

lemma frame_constants:
  "mass (craft (snd (frame h t e))) = mass (craft e) \<and>
   gravityReduction (craft (snd (frame h t e))) = gravityReduction (craft e)"
  using animate_constants [of t "e\<lparr>pendingFrames := pendingFrames e - {h}\<rparr>"]
  by (simp add: frame_def)

lemma pause_craft: "craft (pause e) = craft e"
  by (simp add: pause_def Let_def split: option.splits)

lemma audioInitialize_craft: "craft (audioInitialize ok e) = craft e"
  by (simp add: audioInitialize_def)

lemma initialize_constants:
  "mass (craft (initialize out t e)) = mass (craft e) \<and>
   gravityReduction (craft (initialize out t e)) = gravityReduction (craft e)"
  by (simp add: initialize_def Let_def start_constants audioInitialize_craft
      split: Completion.splits)

lemma startMission_constants:
  "mass (craft (snd (startMission m t e))) = mass (craft e) \<and>
   gravityReduction (craft (snd (startMission m t e))) = gravityReduction (craft e)"
  using start_constants [of t "e\<lparr>craft := reset (craft e), isPaused := False\<rparr>"]
  by (simp add: startMission_def Let_def reset_def)

lemma engineStep_constants:
  "mass (craft (engineStep e ev)) = mass (craft e) \<and>
   gravityReduction (craft (engineStep e ev)) = gravityReduction (craft e)"
proof (cases ev)
  case (Initialize out t)
  then show ?thesis by (simp add: initialize_constants)
next
  case (Frame h t)
  then show ?thesis by (simp add: frame_constants)
next
  case (StartMission m t)
  then show ?thesis by (simp add: startMission_constants)
next
  case (ToggleSystem sy b)
  then show ?thesis by (simp add: toggleSystem_def)
next
  case Pause
  then show ?thesis by (simp add: pause_craft)
next
  case (Resume t)
  then show ?thesis
    using start_constants [of t "e\<lparr>isPaused := False\<rparr>"] by (simp add: resume_def)
next
  case Dispose
  then show ?thesis by (simp add: dispose_def pause_craft)
next
  case (VisibilityChange b)
  then show ?thesis by (simp add: handleVisibilityChange_def pause_craft)
next
  case (Input i)
  then show ?thesis by simp
next
  case (MissionSelect m t)
  then show ?thesis
    using startMission_constants [of m t "e\<lparr>gameState := updateGameState (gameState e)
        (noUpdate\<lparr>u_gameMode := Some Playing, u_currentMission := Some (Some m)\<rparr>)\<rparr>"]
    by (simp add: onMissionSelect_def Let_def)
next
  case (SystemToggle sy b)
  then show ?thesis by (simp add: onSystemToggle_def toggleSystem_def Let_def)
next
  case PauseButton
  then show ?thesis by (simp add: onPause_def pause_craft)
qed

lemma foldl_engineStep_constants:
  "mass (craft (foldl engineStep e evs)) = mass (craft e) \<and>
   gravityReduction (craft (foldl engineStep e evs)) = gravityReduction (craft e)"
  by (induction evs arbitrary: e) (simp_all add: engineStep_constants)

lemma engineRun_constants:
  "mass (craft (engineRun support evs)) = 1000 \<and>
   gravityReduction (craft (engineRun support evs)) = 892 / 1000"
  using foldl_engineStep_constants [of "newGameEngine support" evs]
  by (simp add: engineRun_def newGameEngine_def initialCraftState_def)

section \<open>What \<open>start\<close> does\<close>

lemma start_mode:
  "gameMode (gameState (snd (start t e))) = gameMode (gameState e) \<and>
   currentMission (gameState (snd (start t e))) = currentMission (gameState e)"
  by (simp add: start_def animate_def engineUpdate_def updateGameState_def noUpdate_def
      spread_def Let_def)

lemma start_scheduled: "truthy (animationId e) \<Longrightarrow> snd (start t e) = e"
  by (simp add: start_def)

lemma start_unscheduled:
  "\<not> truthy (animationId e) \<Longrightarrow> \<not> isPaused e \<Longrightarrow>
   craft (snd (start t e))
     = updatePhysics (delta t) (inputGetState (inputUpdate (input e))) (craft e)
   \<and> isPaused (snd (start t e)) = False"
  by (simp add: start_def animate_def engineUpdate_def Let_def)

lemma start_ticks:
  "\<not> truthy (animationId e) \<Longrightarrow> \<not> isPaused e \<Longrightarrow>
   ticks (snd (start t e)) = Suc (ticks e)
   \<and> pendingFrames (snd (start t e)) = insert (Suc (frameCounter e)) (pendingFrames e)"
  by (simp add: start_def animate_def engineUpdate_def Let_def)

section \<open>The three engines of the scenarios\<close>

lemma idle_manager: "inputGetState (inputUpdate (newInputManager support)) = idleInput"
  by (simp add: inputGetState_def inputUpdate_def newInputManager_def clampUnit_def
      idleInput_def Let_def)

lemma idle_manager_again:
  "inputUpdate (inputUpdate (newInputManager support)) = inputUpdate (newInputManager support)"
  by (simp add: inputUpdate_def newInputManager_def clampUnit_def Let_def)

lemma running_fields:
  "animationId runningEngine = Some 1"
  "pendingFrames runningEngine = {1}"
  "ticks runningEngine = 1"
  "frameCounter runningEngine = 1"
  "isPaused runningEngine = False"
  "input runningEngine = inputUpdate (newInputManager Supported)"
  "craft runningEngine = updatePhysics (1 / 10) idleInput initialCraftState"
  "gameMode (gameState runningEngine) = Menu"
  "currentMission (gameState runningEngine) = None"
  by (simp_all add: runningEngine_def engineRun_def initialize_def audioInitialize_def allOk_def
      allFulfilled_def newGameEngine_def start_def truthy_def animate_def engineUpdate_def tickReturning_def Let_def
      idle_manager updateGameState_def noUpdate_def spread_def initialGameState_def)

lemma disposed_fields:
  "animationId disposedEngine = None"
  "pendingFrames disposedEngine = {}"
  "ticks disposedEngine = 1"
  "frameCounter disposedEngine = 1"
  "isPaused disposedEngine = True"
  "input disposedEngine = inputUpdate (newInputManager Supported)"
  "craft disposedEngine = updatePhysics (1 / 10) idleInput initialCraftState"
proof -
  have "disposedEngine = dispose runningEngine"
    by (simp add: disposedEngine_def runningEngine_def engineRun_def)
  then have eq:
    "disposedEngine
       = runningEngine\<lparr>isPaused := True, pendingFrames := {}, animationId := None\<rparr>"
    by (simp add: dispose_def pause_def truthy_def Let_def running_fields)
  show "animationId disposedEngine = None"
    "pendingFrames disposedEngine = {}"
    "ticks disposedEngine = 1"
    "frameCounter disposedEngine = 1"
    "isPaused disposedEngine = True"
    "input disposedEngine = inputUpdate (newInputManager Supported)"
    "craft disposedEngine = updatePhysics (1 / 10) idleInput initialCraftState"
    unfolding eq by (simp_all add: running_fields)
qed

lemma hidden_fields:
  "animationId hiddenEngine = None"
  "isPaused hiddenEngine = True"
  "input hiddenEngine = inputUpdate (newInputManager Supported)"
proof -
  have "hiddenEngine = pause runningEngine"
    by (simp add: hiddenEngine_def runningEngine_def engineRun_def handleVisibilityChange_def)
  then have eq:
    "hiddenEngine
       = runningEngine\<lparr>isPaused := True, pendingFrames := {}, animationId := None\<rparr>"
    by (simp add: pause_def truthy_def Let_def running_fields)
  show "animationId hiddenEngine = None"
    "isPaused hiddenEngine = True"
    "input hiddenEngine = inputUpdate (newInputManager Supported)"
    unfolding eq by (simp_all add: running_fields)
qed

lemma applyEuler_level_record: "applyEuler v \<lparr>ex = 0, ey = 0, ez = 0\<rparr> = v"
  using applyEuler_level [of v] by (simp add: euler_def)

lemma first_tick:
  "updatePhysics (1 / 10) idleInput initialCraftState =
     initialCraftState\<lparr>position := v3 0 (999989617096 / 1000000000) 0,
        velocity := v3 0 (- (10382904 / 100000000)) 0,
        acceleration := v3 0 (- (105948 / 100000)) 0,
        speed := 10382904 / 100000000,
        altitude := 999989617096 / 1000000000\<rparr>"
  by (simp add: updatePhysics_def initialCraftState_def idleInput_def Let_def thrustForce_def
      applyEuler_level_record v3_def v3_add_def v3_divideScalar_def v3_multiplyScalar_def
      baseThrust_def gravityStrength_def v3_length_vertical maxSpeed_def euler_def)

lemma second_tick:
  "altitude (updatePhysics (1 / 10) idleInput (updatePhysics (1 / 10) idleInput initialCraftState))
     = 99996905894608 / 100000000000"
  unfolding first_tick
  by (simp add: updatePhysics_def initialCraftState_def idleInput_def Let_def thrustForce_def
      applyEuler_level_record v3_def v3_add_def v3_divideScalar_def v3_multiplyScalar_def
      baseThrust_def gravityStrength_def v3_length_vertical maxSpeed_def euler_def)

section \<open>Initialization\<close>






section \<open>Disposal\<close>

text \<open>
  Claim C5, as stated, fails.  The engine has been initialized (one tick has run) and
  disposed.  A call of \<open>resume()\<close> then runs a second tick at once and requests the
  next frame, whether the \<open>isActive()\<close> calls of the tick return or throw; the craft
  has moved (its altitude goes from 999.989617096 to 999.96905894608).  A call of
  \<open>startMission\<close> runs a tick as well.
\<close>

theorem resume_after_dispose_runs_a_tick:
  "ticks disposedEngine = 1
   \<and> ticks (snd (resume tickReturning disposedEngine)) = 2
   \<and> ticks (snd (resume tickThrowing disposedEngine)) = 2
   \<and> pendingFrames (snd (resume tickReturning disposedEngine)) = {2}
   \<and> altitude (craft disposedEngine) = 999989617096 / 1000000000
   \<and> altitude (craft (snd (resume tickReturning disposedEngine)))
       = 99996905894608 / 100000000000
   \<and> ticks (snd (startMission ''atmospheric'' tickReturning disposedEngine)) = 2"
proof -
  let ?r = "disposedEngine\<lparr>isPaused := False\<rparr>"
  let ?m = "disposedEngine\<lparr>craft := reset (craft disposedEngine), isPaused := False\<rparr>"
  have r: "\<not> truthy (animationId ?r)" "\<not> isPaused ?r"
    by (simp_all add: truthy_def disposed_fields)
  have m: "\<not> truthy (animationId ?m)" "\<not> isPaused ?m"
    by (simp_all add: truthy_def disposed_fields)
  have resumed: "ticks (snd (resume tickReturning disposedEngine)) = 2
     \<and> pendingFrames (snd (resume tickReturning disposedEngine)) = {2}"
    using start_ticks [OF r, of tickReturning] by (simp add: resume_def disposed_fields)
  have resumed_throwing: "ticks (snd (resume tickThrowing disposedEngine)) = 2"
    using start_ticks [OF r, of tickThrowing] by (simp add: resume_def disposed_fields)
  have moved: "altitude (craft (snd (resume tickReturning disposedEngine)))
     = 99996905894608 / 100000000000"
    using start_unscheduled [OF r, of tickReturning]
    by (simp add: resume_def disposed_fields idle_manager_again idle_manager tickReturning_def
        second_tick)
  have mission: "ticks (snd (startMission ''atmospheric'' tickReturning disposedEngine)) = 2"
    using start_ticks [OF m, of tickReturning]
    by (simp add: startMission_def Let_def disposed_fields)
  have before: "altitude (craft disposedEngine) = 999989617096 / 1000000000"
    by (simp add: disposed_fields first_tick)
  from resumed resumed_throwing moved mission before show ?thesis
    by (simp add: disposed_fields)
qed

text \<open>
  Claim C5, amended.  \<open>dispose()\<close> halts the loop, and the loop stays halted until
  \<open>resume()\<close> or \<open>startMission()\<close> is called: whatever happened before \<open>dispose()\<close>, and
  whatever happens after it apart from those two calls (frame callbacks, \<open>initialize()\<close>,
  \<open>pause()\<close>, a second \<open>dispose()\<close>, visibility changes, toggles, raw input), no tick
  executes, the craft is not updated and no frame is requested.
\<close>

theorem no_tick_after_dispose_until_rearmed:
  assumes "filter rearms evs' = []"
  shows "ticks (foldl engineStep (dispose (engineRun support evs)) evs')
           = ticks (dispose (engineRun support evs))
         \<and> craft (foldl engineStep (dispose (engineRun support evs)) evs')
           = craft (dispose (engineRun support evs))
         \<and> pendingFrames (foldl engineStep (dispose (engineRun support evs)) evs') = {}"
proof -
  have stopped: "halted (dispose (engineRun support evs))"
    unfolding dispose_def by (rule pause_halted) (rule engineRun_tracked)
  from assms have "\<forall>ev \<in> set evs'. \<not> rearms ev"
    by (simp add: filter_empty_conv)
  from halted_foldl [OF stopped this] show ?thesis
    by (simp add: halted_def)
qed

text \<open>
  The amended claim at an engine disposed after its first tick: two frame callbacks, a
  second \<open>initialize()\<close>, a key press and a visibility change leave the tick count at 1.
\<close>

theorem no_tick_after_dispose_witness:
  "filter rearms
     [Frame 1 tickReturning, Initialize allOk tickReturning, Input (KeyDown ''Space''),
      Frame 2 tickThrowing, VisibilityChange False] = []
   \<and> ticks (foldl engineStep (dispose (engineRun Supported [Initialize allOk tickReturning]))
        [Frame 1 tickReturning, Initialize allOk tickReturning, Input (KeyDown ''Space''),
         Frame 2 tickThrowing, VisibilityChange False]) = 1"
proof -
  have quiet: "filter rearms
     [Frame 1 tickReturning, Initialize allOk tickReturning, Input (KeyDown ''Space''),
      Frame 2 tickThrowing, VisibilityChange False] = []"
    by simp
  have "dispose (engineRun Supported [Initialize allOk tickReturning]) = disposedEngine"
    by (simp add: disposedEngine_def engineRun_def)
  with no_tick_after_dispose_until_rearmed
         [OF quiet, of Supported "[Initialize allOk tickReturning]"] quiet
  show ?thesis
    by (simp add: disposed_fields)
qed

section \<open>Starting a mission\<close>

text \<open>
  Claim C6, as stated, fails.  \<open>GameEngine.startMission\<close> on the running engine leaves
  the published mode at \<open>menu\<close> and the mission at \<open>null\<close>: it does not write them.  And
  when the mission is selected (the handler of \<open>App\<close>) on an engine that was paused by a
  hidden page, the craft is not in its initial state when \<open>startMission\<close> returns: a tick
  has run already, the altitude is 999.989617096 and the vertical velocity -0.10382904,
  not 1000 and 0.
\<close>

theorem startMission_neither_publishes_nor_leaves_craft_initial:
  "gameMode (gameState (snd (startMission ''atmospheric'' tickReturning runningEngine))) = Menu
   \<and> currentMission (gameState (snd (startMission ''atmospheric'' tickReturning runningEngine)))
       = None
   \<and> altitude (craft (snd (onMissionSelect ''atmospheric'' tickReturning hiddenEngine)))
       = 999989617096 / 1000000000
   \<and> vy (velocity (craft (snd (onMissionSelect ''atmospheric'' tickReturning hiddenEngine))))
       = - (10382904 / 100000000)
   \<and> altitude initialCraftState = 1000
   \<and> vy (velocity initialCraftState) = 0"
proof -
  have unpublished:
    "gameMode (gameState (snd (startMission ''atmospheric'' tickReturning runningEngine))) = Menu
     \<and> currentMission (gameState (snd (startMission ''atmospheric'' tickReturning runningEngine)))
         = None"
    using start_mode [of tickReturning
        "runningEngine\<lparr>craft := reset (craft runningEngine), isPaused := False\<rparr>"]
    by (simp add: startMission_def Let_def running_fields)
  let ?g = "updateGameState (gameState hiddenEngine)
              (noUpdate\<lparr>u_gameMode := Some Playing,
                        u_currentMission := Some (Some ''atmospheric'')\<rparr>)"
  let ?e2 = "hiddenEngine\<lparr>gameState := ?g, craft := reset (craft hiddenEngine),
               isPaused := False\<rparr>"
  have sel: "onMissionSelect ''atmospheric'' tickReturning hiddenEngine = start tickReturning ?e2"
    by (simp add: onMissionSelect_def startMission_def Let_def)
  have rs: "reset (craft hiddenEngine) = initialCraftState"
    using engineRun_constants
            [of Supported "[Initialize allOk tickReturning, VisibilityChange True]"]
    by (intro reset_eq_initial) (simp_all add: hiddenEngine_def)
  have u: "\<not> truthy (animationId ?e2)" "\<not> isPaused ?e2"
    by (simp_all add: truthy_def hidden_fields)
  have ticked: "craft (snd (onMissionSelect ''atmospheric'' tickReturning hiddenEngine))
     = updatePhysics (1 / 10) idleInput initialCraftState"
  proof -
    have dt: "delta tickReturning = 1 / 10"
      by (simp add: tickReturning_def)
    from start_unscheduled [OF u, of tickReturning] show ?thesis
      by (simp add: sel rs hidden_fields idle_manager_again idle_manager dt)
  qed
  show ?thesis
    unfolding ticked first_tick using unpublished by (simp add: initialCraftState_def v3_def)
qed

text \<open>
  Claim C6, amended.  For every mission identifier and every state the engine can
  reach, selecting the mission (the handler of \<open>App\<close>: \<open>updateGameState\<close> with mode
  \<open>playing\<close> and the identifier, then \<open>GameEngine.startMission\<close>) leaves the published
  mode at \<open>playing\<close> and the published mission at the identifier, and clears \<open>isPaused\<close>.
  \<open>startMission\<close> resets the craft to the constructor's state; when a frame is already
  requested that is the state of the craft on return, and otherwise \<open>startMission\<close> runs
  one tick at once, so the craft is the constructor's state advanced by one update.
  \<open>GameEngine.startMission\<close> by itself writes neither the mode nor the mission.
\<close>

theorem mission_select_publishes_and_resets:
  "gameMode (gameState (snd (onMissionSelect mission t (engineRun support evs)))) = Playing
   \<and> currentMission (gameState (snd (onMissionSelect mission t (engineRun support evs))))
       = Some mission
   \<and> isPaused (snd (onMissionSelect mission t (engineRun support evs))) = False
   \<and> craft (snd (onMissionSelect mission t (engineRun support evs)))
       = (if animationId (engineRun support evs) = None
          then updatePhysics (delta t)
                 (inputGetState (inputUpdate (input (engineRun support evs)))) initialCraftState
          else initialCraftState)
   \<and> gameMode (gameState (snd (startMission mission t (engineRun support evs))))
       = gameMode (gameState (engineRun support evs))
   \<and> currentMission (gameState (snd (startMission mission t (engineRun support evs))))
       = currentMission (gameState (engineRun support evs))"
proof -
  let ?e = "engineRun support evs"
  let ?g = "updateGameState (gameState ?e)
              (noUpdate\<lparr>u_gameMode := Some Playing, u_currentMission := Some (Some mission)\<rparr>)"
  let ?e2 = "?e\<lparr>gameState := ?g, craft := reset (craft ?e), isPaused := False\<rparr>"
  have sel: "onMissionSelect mission t ?e = start t ?e2"
    by (simp add: onMissionSelect_def startMission_def Let_def)
  have rs: "reset (craft ?e) = initialCraftState"
    using engineRun_constants [of support evs] by (intro reset_eq_initial) simp_all
  have nonzero: "animationId ?e \<noteq> Some 0"
    using engineRun_tracked [of support evs] by (simp add: framesTracked_def)
  have g: "gameMode ?g = Playing \<and> currentMission ?g = Some mission"
    by (simp add: updateGameState_def noUpdate_def spread_def)
  have published: "gameMode (gameState (snd (start t ?e2))) = Playing
      \<and> currentMission (gameState (snd (start t ?e2))) = Some mission"
    using start_mode [of t ?e2] g by simp
  have craft_after: "isPaused (snd (start t ?e2)) = False \<and> craft (snd (start t ?e2))
       = (if animationId ?e = None
          then updatePhysics (delta t) (inputGetState (inputUpdate (input ?e))) initialCraftState
          else initialCraftState)"
  proof (cases "animationId ?e")
    case None
    then have "\<not> truthy (animationId ?e2)" "\<not> isPaused ?e2"
      by (simp_all add: truthy_def)
    from start_unscheduled [OF this, of t] None rs show ?thesis
      by simp
  next
    case (Some h)
    with nonzero have "truthy (animationId ?e2)"
      by (simp add: truthy_def)
    from start_scheduled [OF this, of t] Some rs show ?thesis
      by simp
  qed
  have plain: "gameMode (gameState (snd (startMission mission t ?e))) = gameMode (gameState ?e)
     \<and> currentMission (gameState (snd (startMission mission t ?e)))
         = currentMission (gameState ?e)"
    using start_mode [of t "?e\<lparr>craft := reset (craft ?e), isPaused := False\<rparr>"]
    by (simp add: startMission_def Let_def)
  from published craft_after plain show ?thesis
    unfolding sel by blast
qed

end
